theory Spec2Isabelle
  imports Complex_Main "HOL-Library.Char_ord" "HOL-Library.List_Lexorder" "HOL-Library.AList"
    "HOL-Library.Multiset"
begin

section \<open>Data model (src/types.ts)\<close>

text \<open>
  JavaScript numbers that carry macro quantities (grams, calories) are finite doubles,
  modelled as the real numbers they are; where the code adds them (\<^verbatim>\<open>computeTotals\<close>) the
  sum is rounded as the addition of doubles rounds it (\<open>jsAdd\<close> below). Timestamps and
  counters, which the code only ever produces from \<^verbatim>\<open>Date.now()\<close> and from integer
  increments, are modelled as integers (milliseconds since the epoch). An optional
  property (\<^verbatim>\<open>name?: string\<close>) is an \<open>option\<close>.
\<close>

datatype GoalType = bulking | cutting | recomposition | maintaining

datatype Sex = male | female | non_binary

datatype ActivityLevel = sedentary | light | moderate | intense

datatype MealType = breakfast | lunch | dinner | snack | post_workout

datatype Timeframe = daily | weekly

record MacroTargets =
  protein :: real
  carbs :: real
  fat :: real
  calories :: real

record UserProfile =
  up_id :: "string option"
  up_name :: "string option"
  up_goalType :: "GoalType option"
  up_weight :: "real option"
  up_targetWeight :: "real option"
  up_heightInches :: "real option"
  up_age :: "real option"
  up_sex :: "Sex option"
  up_activityLevel :: "ActivityLevel option"
  up_macroTargets :: "MacroTargets option"
  up_restrictions :: "string list option"
  up_preferences :: "string list option"
  up_timezone :: "string option"
  up_updatedAt :: "int option"

record MealLog =
  ml_id :: string
  ml_timestamp :: int
  ml_food :: string
  ml_mealType :: "MealType option"
  ml_protein :: real
  ml_carbs :: real
  ml_fat :: real
  ml_calories :: real
  ml_notes :: "string option"

record DailyMacros =
  dm_date :: string
  dm_totals :: MacroTargets
  dm_meals :: "MealLog list"

record MealPlanEntry =
  mpe_mealType :: MealType
  mpe_name :: string
  mpe_description :: string
  mpe_macros :: MacroTargets
  mpe_ingredients :: "string list"
  mpe_preparationSteps :: "string list"

record MealPlanDay =
  mpd_date :: string
  mpd_goalSummary :: string
  mpd_meals :: "MealPlanEntry list"

record MealPlan =
  mp_id :: string
  mp_createdAt :: int
  mp_timeframe :: Timeframe
  mp_days :: "MealPlanDay list"
  mp_shoppingListId :: "string option"

record ShoppingListItem =
  sli_name :: string
  sli_quantity :: string
  sli_mealReferences :: "string list"

record ShoppingList =
  sl_id :: string
  sl_createdAt :: int
  sl_timeframe :: Timeframe
  sl_items :: "ShoppingListItem list"

text \<open>The value \<^verbatim>\<open>bumpRateLimit\<close> keeps under the key \<^verbatim>\<open>"rate-limit"\<close>.\<close>

record RateLimitRecord =
  rl_count :: int
  rl_reset :: int

section \<open>The state store (Durable Object storage, src/server.ts)\<close>

text \<open>
  The store maps string keys to values. \<^verbatim>\<open>storage.get\<close> hands out a copy of what is
  stored, so a caller that mutates the value it read (as \<^verbatim>\<open>sort\<close> does) leaves the store
  as it was until it calls \<^verbatim>\<open>storage.put\<close>. The values the agent stores are of seven shapes,
  one per key family of \<^verbatim>\<open>STORAGE_KEYS\<close> and the rate-limit key. The shopping lists are a
  JavaScript object used as a dictionary: an association list, updated in place or
  extended at the end.
\<close>

datatype stored =
    VProfile UserProfile
  | VDaily DailyMacros
  | VDates "string list"
  | VPlan MealPlan
  | VPlanHistory "MealPlan list"
  | VShoppingLists "(string \<times> ShoppingList) list"
  | VRateLimit RateLimitRecord

type_synonym store = "string \<Rightarrow> stored option"

definition PROFILE :: string where
  "PROFILE = ''profile''"

definition MEAL_DAILY_PREFIX :: string where
  "MEAL_DAILY_PREFIX = ''daily-macros:''"

definition MEAL_DATES :: string where
  "MEAL_DATES = ''daily-macros:dates''"

definition MEAL_PLAN_ACTIVE :: string where
  "MEAL_PLAN_ACTIVE = ''meal-plan:active''"

definition MEAL_PLAN_HISTORY :: string where
  "MEAL_PLAN_HISTORY = ''meal-plan:history''"

definition SHOPPING_LISTS :: string where
  "SHOPPING_LISTS = ''shopping-lists''"

definition RATE_LIMIT_KEY :: string where
  "RATE_LIMIT_KEY = ''rate-limit''"

definition EMPTY_TOTALS :: MacroTargets where
  "EMPTY_TOTALS = \<lparr>protein = 0, carbs = 0, fat = 0, calories = 0\<rparr>"

definition MAX_STORED_MEAL_HISTORY :: nat where
  "MAX_STORED_MEAL_HISTORY = 30"

definition MAX_MEAL_PLAN_HISTORY :: nat where
  "MAX_MEAL_PLAN_HISTORY = 5"

definition RATE_LIMIT_WINDOW_MS :: int where
  "RATE_LIMIT_WINDOW_MS = 10 * 60 * 1000"

definition RATE_LIMIT_MAX_REQUESTS :: int where
  "RATE_LIMIT_MAX_REQUESTS = 20"

text \<open>
  \<^verbatim>\<open>storageGet<T>(key)\<close> returns the stored value or null and leaves the store alone;
  \<^verbatim>\<open>storagePut(key, value)\<close> overwrites one key. Both return the store they leave behind.
\<close>

definition storageGet :: "string \<Rightarrow> store \<Rightarrow> stored option \<times> store" where
  "storageGet key s = (s key, s)"

definition storagePut :: "string \<Rightarrow> stored \<Rightarrow> store \<Rightarrow> store" where
  "storagePut key v s = s(key \<mapsto> v)"

text \<open>
  The type argument of \<^verbatim>\<open>storageGet<T>\<close> is a cast. Each key family is only ever written
  with one shape, so the casts below read a value of the expected shape and take anything
  else as absent.
\<close>

fun asProfile :: "stored option \<Rightarrow> UserProfile option" where
  "asProfile (Some (VProfile p)) = Some p"
| "asProfile _ = None"

fun asDaily :: "stored option \<Rightarrow> DailyMacros option" where
  "asDaily (Some (VDaily d)) = Some d"
| "asDaily _ = None"

fun asDates :: "stored option \<Rightarrow> string list option" where
  "asDates (Some (VDates ds)) = Some ds"
| "asDates _ = None"

fun asPlan :: "stored option \<Rightarrow> MealPlan option" where
  "asPlan (Some (VPlan p)) = Some p"
| "asPlan _ = None"

fun asPlanHistory :: "stored option \<Rightarrow> MealPlan list option" where
  "asPlanHistory (Some (VPlanHistory ps)) = Some ps"
| "asPlanHistory _ = None"


fun asRateLimit :: "stored option \<Rightarrow> RateLimitRecord option" where
  "asRateLimit (Some (VRateLimit r)) = Some r"
| "asRateLimit _ = None"

section \<open>Rate limiter (GainChefAgent.bumpRateLimit)\<close>

text \<open>
  \<^verbatim>\<open>bumpRateLimit\<close> reads the clock once (\<open>now\<close>), takes the stored record or a fresh one
  with count 0 and reset \<open>now + RATE_LIMIT_WINDOW_MS\<close>, starts a new window when
  \<open>now > record.reset\<close>, and then either refuses (count at or above the cap; the record is
  written back) or counts the request and admits it.
\<close>

definition bumpRateLimit :: "int \<Rightarrow> store \<Rightarrow> bool \<times> store" where
  "bumpRateLimit now s =
     (let (v, s1) = storageGet RATE_LIMIT_KEY s;
          record0 = (case asRateLimit v of
                       Some r \<Rightarrow> r
                     | None \<Rightarrow> \<lparr>rl_count = 0, rl_reset = now + RATE_LIMIT_WINDOW_MS\<rparr>);
          record1 = (if now > rl_reset record0
                     then record0\<lparr>rl_count := 0, rl_reset := now + RATE_LIMIT_WINDOW_MS\<rparr>
                     else record0)
      in if rl_count record1 \<ge> RATE_LIMIT_MAX_REQUESTS
         then (False, storagePut RATE_LIMIT_KEY (VRateLimit record1) s1)
         else (True, storagePut RATE_LIMIT_KEY
                       (VRateLimit (record1\<lparr>rl_count := rl_count record1 + 1\<rparr>)) s1))"

text \<open>A run of requests: one \<^verbatim>\<open>bumpRateLimit\<close> call per clock reading, in order.\<close>

fun admitAll :: "int list \<Rightarrow> store \<Rightarrow> bool list \<times> store" where
  "admitAll [] s = ([], s)"
| "admitAll (now # nows) s =
     (let (ok, s1) = bumpRateLimit now s;
          (oks, s2) = admitAll nows s1
      in (ok # oks, s2))"

definition rateLimitOf :: "store \<Rightarrow> RateLimitRecord option" where
  "rateLimitOf s = asRateLimit (s RATE_LIMIT_KEY)"

section \<open>Dates (Date.prototype.toISOString, GainChefAgent.toDateString)\<close>

text \<open>
  What the code can raise: \<^verbatim>\<open>toISOString\<close> on an invalid Date (RangeError), a tool run
  outside an agent context, an input the tool's schema refuses.
\<close>

datatype error = RangeError | AgentContextUnavailable | ValidationError

text \<open>
  \<^verbatim>\<open>new Date(timestamp)\<close> holds a time value of at most 8.64e15 milliseconds either side of
  the epoch, and is an invalid Date beyond that (\<open>None\<close>).
\<close>

definition newDate :: "int \<Rightarrow> int option" where
  "newDate t = (if \<bar>t\<bar> \<le> 8640000000000000 then Some t else None)"

text \<open>
  The UTC calendar of ECMAScript time values (ECMA-262, Date objects: day number and time
  within day, year number, month number, date number), which is the proleptic Gregorian
  calendar. The functions carry the names the standard gives them and are transcribed from
  it, with one exception: the standard specifies \<^verbatim>\<open>YearFromTime(t)\<close> as the largest year
  \<open>y\<close> with \<^verbatim>\<open>TimeFromYear(y)\<close> at most \<open>t\<close>, and it is computed here from an estimate
  (400 years are 146097 days) that is off by at most one year. Lemmas
  \<open>YearFromTime_bounds\<close> and \<open>YearFromTime_largest\<close> show that what is computed is the year
  the standard specifies.
\<close>

definition msPerDay :: int where
  "msPerDay = 86400000"

definition Day :: "int \<Rightarrow> int" where
  "Day t = t div msPerDay"

definition DaysInYear :: "int \<Rightarrow> int" where
  "DaysInYear y =
     (if y mod 4 \<noteq> 0 then 365
      else if y mod 100 \<noteq> 0 then 366
      else if y mod 400 \<noteq> 0 then 365
      else 366)"

definition DayFromYear :: "int \<Rightarrow> int" where
  "DayFromYear y =
     365 * (y - 1970) + (y - 1969) div 4 - (y - 1901) div 100 + (y - 1601) div 400"

definition TimeFromYear :: "int \<Rightarrow> int" where
  "TimeFromYear y = msPerDay * DayFromYear y"

definition YearFromTime :: "int \<Rightarrow> int" where
  "YearFromTime t =
     (let y1 = 1970 + (400 * Day t) div 146097
      in if DayFromYear (y1 + 1) \<le> Day t then y1 + 1
         else if DayFromYear y1 \<le> Day t then y1
         else y1 - 1)"

definition InLeapYear :: "int \<Rightarrow> int" where
  "InLeapYear t = (if DaysInYear (YearFromTime t) = 366 then 1 else 0)"

definition DayWithinYear :: "int \<Rightarrow> int" where
  "DayWithinYear t = Day t - DayFromYear (YearFromTime t)"

definition MonthFromTime :: "int \<Rightarrow> int" where
  "MonthFromTime t =
     (let d = DayWithinYear t; l = InLeapYear t
      in if d < 31 then 0
         else if d < 59 + l then 1
         else if d < 90 + l then 2
         else if d < 120 + l then 3
         else if d < 151 + l then 4
         else if d < 181 + l then 5
         else if d < 212 + l then 6
         else if d < 243 + l then 7
         else if d < 273 + l then 8
         else if d < 304 + l then 9
         else if d < 334 + l then 10
         else 11)"

definition DateFromTime :: "int \<Rightarrow> int" where
  "DateFromTime t =
     (let d = DayWithinYear t; l = InLeapYear t; m = MonthFromTime t
      in if m = 0 then d + 1
         else if m = 1 then d - 30
         else if m = 2 then d - 58 - l
         else if m = 3 then d - 89 - l
         else if m = 4 then d - 119 - l
         else if m = 5 then d - 150 - l
         else if m = 6 then d - 180 - l
         else if m = 7 then d - 211 - l
         else if m = 8 then d - 242 - l
         else if m = 9 then d - 272 - l
         else if m = 10 then d - 303 - l
         else d - 333 - l)"

definition HourFromTime :: "int \<Rightarrow> int" where
  "HourFromTime t = t div 3600000 mod 24"

definition MinFromTime :: "int \<Rightarrow> int" where
  "MinFromTime t = t div 60000 mod 60"

definition SecFromTime :: "int \<Rightarrow> int" where
  "SecFromTime t = t div 1000 mod 60"

definition msFromTime :: "int \<Rightarrow> int" where
  "msFromTime t = t mod 1000"

text \<open>
  The calendar in words, to state what the functions above compute: the number of days of
  a year that come before its month \<open>m\<close> (0 for January to 11 for December), and the
  number of days of that month, \<open>l\<close> being 1 in a leap year and 0 otherwise.
\<close>

definition daysBeforeMonth :: "int \<Rightarrow> int \<Rightarrow> int" where
  "daysBeforeMonth m l =
     (if m = 0 then 0 else if m = 1 then 31 else if m = 2 then 59 + l
      else if m = 3 then 90 + l else if m = 4 then 120 + l else if m = 5 then 151 + l
      else if m = 6 then 181 + l else if m = 7 then 212 + l else if m = 8 then 243 + l
      else if m = 9 then 273 + l else if m = 10 then 304 + l else 334 + l)"

definition daysInMonth :: "int \<Rightarrow> int \<Rightarrow> int" where
  "daysInMonth m l =
     (if m = 1 then 28 + l
      else if m = 3 \<or> m = 5 \<or> m = 8 \<or> m = 10 then 30
      else 31)"

definition digit :: "int \<Rightarrow> char" where
  "digit n = ''0123456789'' ! nat n"

definition pad2 :: "int \<Rightarrow> string" where
  "pad2 n = [digit (n div 10 mod 10), digit (n mod 10)]"

definition pad3 :: "int \<Rightarrow> string" where
  "pad3 n = digit (n div 100 mod 10) # pad2 n"

definition pad4 :: "int \<Rightarrow> string" where
  "pad4 n = digit (n div 1000 mod 10) # pad3 n"

definition pad6 :: "int \<Rightarrow> string" where
  "pad6 n = digit (n div 100000 mod 10) # digit (n div 10000 mod 10) # pad4 n"

text \<open>
  The year of an ISO string: four digits for the years 0 to 9999, a sign and six digits
  otherwise.
\<close>

definition isoYear :: "int \<Rightarrow> string" where
  "isoYear y =
     (if 0 \<le> y \<and> y \<le> 9999 then pad4 y
      else if y < 0 then CHR ''-'' # pad6 (- y)
      else CHR ''+'' # pad6 y)"

text \<open>
  \<^verbatim>\<open>toISOString\<close>: \<^verbatim>\<open>YYYY-MM-DDTHH:mm:ss.sssZ\<close> in UTC, a RangeError on an invalid Date.
\<close>

definition toISOString :: "int option \<Rightarrow> error + string" where
  "toISOString date =
     (case date of
        None \<Rightarrow> Inl RangeError
      | Some t \<Rightarrow>
          Inr (isoYear (YearFromTime t) @ ''-'' @ pad2 (MonthFromTime t + 1) @ ''-'' @
               pad2 (DateFromTime t) @ ''T'' @
               pad2 (HourFromTime t) @ '':'' @
               pad2 (MinFromTime t) @ '':'' @
               pad2 (SecFromTime t) @ ''.'' @
               pad3 (msFromTime t) @ ''Z''))"

text \<open>\<^verbatim>\<open>toDateString(date)\<close> is \<^verbatim>\<open>date.toISOString().slice(0, 10)\<close>.\<close>

definition toDateString :: "int option \<Rightarrow> error + string" where
  "toDateString date =
     (case toISOString date of
        Inl e \<Rightarrow> Inl e
      | Inr text \<Rightarrow> Inr (take 10 text))"

section \<open>JavaScript numbers (the addition of computeTotals)\<close>

text \<open>
  A JavaScript number is an IEEE 754 double, and \<^verbatim>\<open>a + b\<close> is the double nearest to the
  exact sum, ties going to the even significand. A finite double is a real number, and the
  quantities of meals and targets are modelled as reals; the addition is modelled by
  rounding the exact sum: \<open>binade x\<close> is the exponent \<open>e\<close> of the power of two with
  \<open>2^e \<le> |x| < 2^(e+1)\<close>, kept to the range -1022 to 1023 of the exponents of doubles (so
  that the subnormal numbers share the exponent -1022), and the doubles of that binade
  are the multiples of \<open>2^(e-52)\<close>. A sum of magnitude 2^1024 or more, which is
  \<^verbatim>\<open>Infinity\<close> in JavaScript, is beyond this model, as are \<^verbatim>\<open>NaN\<close> and the sign of zero.
\<close>

definition pow2 :: "int \<Rightarrow> real" where
  "pow2 k = (if 0 \<le> k then 2 ^ nat k else 1 / 2 ^ nat (- k))"

fun binadeFrom :: "nat \<Rightarrow> int \<Rightarrow> real \<Rightarrow> int" where
  "binadeFrom 0 e a = e"
| "binadeFrom (Suc n) e a = (if pow2 (e + 1) \<le> a then binadeFrom n (e + 1) a else e)"

definition binade :: "real \<Rightarrow> int" where
  "binade x = binadeFrom 2045 (- 1022) \<bar>x\<bar>"

definition roundHalfEven :: "real \<Rightarrow> int" where
  "roundHalfEven x =
     (let n = \<lfloor>x\<rfloor>; r = x - of_int n
      in if r < 1 / 2 then n
         else if 1 / 2 < r then n + 1
         else if even n then n
         else n + 1)"

definition roundDouble :: "real \<Rightarrow> real" where
  "roundDouble x = of_int (roundHalfEven (x / pow2 (binade x - 52))) * pow2 (binade x - 52)"

definition jsAdd :: "real \<Rightarrow> real \<Rightarrow> real" where
  "jsAdd x y = roundDouble (x + y)"



section \<open>Meal logging (computeTotals, GainChefAgent.logMeal and its helpers)\<close>

text \<open>\<^verbatim>\<open>meals.reduce((totals, meal) => ({protein: totals.protein + meal.protein, ...}), {...EMPTY_TOTALS})\<close>\<close>

definition computeTotals :: "MealLog list \<Rightarrow> MacroTargets" where
  "computeTotals meals =
     foldl (\<lambda>totals meal.
              \<lparr>protein = jsAdd (protein totals) (ml_protein meal),
               carbs = jsAdd (carbs totals) (ml_carbs meal),
               fat = jsAdd (fat totals) (ml_fat meal),
               calories = jsAdd (calories totals) (ml_calories meal)\<rparr>)
           EMPTY_TOTALS meals"

definition getDailyKey :: "string \<Rightarrow> string" where
  "getDailyKey date = MEAL_DAILY_PREFIX @ date"

definition readDaily :: "string \<Rightarrow> store \<Rightarrow> DailyMacros option \<times> store" where
  "readDaily date s = (let (v, s1) = storageGet (getDailyKey date) s in (asDaily v, s1))"

definition writeDaily :: "DailyMacros \<Rightarrow> store \<Rightarrow> store" where
  "writeDaily day s = storagePut (getDailyKey (dm_date day)) (VDaily day) s"

text \<open>
  \<^verbatim>\<open>xs.sort((a, b) => b.localeCompare(a))\<close>: descending order of the strings under the
  collation of \<^verbatim>\<open>localeCompare\<close>. The strings sorted are date strings, made of digits,
  \<^verbatim>\<open>-\<close> and, for the years beyond 9999, \<^verbatim>\<open>+\<close> (lemma \<open>toDateString_chars\<close>). The collation
  compares them character by character, a string that is a proper prefix of another
  coming first, and places \<^verbatim>\<open>-\<close> before \<^verbatim>\<open>+\<close> and both before every digit, unlike the
  character codes, where \<^verbatim>\<open>+\<close> comes before \<^verbatim>\<open>-\<close>. The weight below is that order on
  these characters; any other character, which no date string has, is given its code
  after them. Strings that compare equal are the same string, so that the stability of
  the sort does not show.
\<close>

definition collationWeight :: "char \<Rightarrow> nat" where
  "collationWeight c =
     (if c = CHR ''-'' then 0 else if c = CHR ''+'' then 1 else 2 + of_char c)"

definition collationKey :: "string \<Rightarrow> nat list" where
  "collationKey x = map collationWeight x"

definition sortDescending :: "string list \<Rightarrow> string list" where
  "sortDescending xs = rev (sort_key collationKey xs)"

definition updateMealDates :: "string \<Rightarrow> store \<Rightarrow> store" where
  "updateMealDates date s =
     (let (v, s1) = storageGet MEAL_DATES s;
          dates = (case asDates v of Some ds \<Rightarrow> ds | None \<Rightarrow> []);
          dates1 = (if date \<in> set dates then dates else dates @ [date]);
          ordered = take MAX_STORED_MEAL_HISTORY (sortDescending dates1)
      in storagePut MEAL_DATES (VDates ordered) s1)"

text \<open>
  The meal as \<^verbatim>\<open>logMeal\<close> receives it: \<^verbatim>\<open>id\<close> and \<^verbatim>\<open>timestamp\<close> may be nullish, and
  \<^verbatim>\<open>logMeal\<close> fills them in (\<^verbatim>\<open>meal.id ?? ...\<close>, \<^verbatim>\<open>meal.timestamp ?? Date.now()\<close>).
\<close>

record MealLogArg =
  mla_id :: "string option"
  mla_timestamp :: "int option"
  mla_food :: string
  mla_mealType :: "MealType option"
  mla_protein :: real
  mla_carbs :: real
  mla_fat :: real
  mla_calories :: real
  mla_notes :: "string option"

text \<open>
  \<open>now\<close> is the reading of \<^verbatim>\<open>Date.now()\<close>, \<open>fresh\<close> the identifier generated for a meal
  that has none (\<^verbatim>\<open>crypto.randomUUID()\<close>). The meals are sorted by timestamp with the
  stable \<^verbatim>\<open>Array.prototype.sort\<close>. A RangeError of \<^verbatim>\<open>toDateString\<close> is raised before
  anything is written.
\<close>

definition normalizeMeal :: "string \<Rightarrow> int \<Rightarrow> MealLogArg \<Rightarrow> MealLog" where
  "normalizeMeal fresh timestamp meal =
     \<lparr>ml_id = (case mla_id meal of Some i \<Rightarrow> i | None \<Rightarrow> fresh),
      ml_timestamp = timestamp,
      ml_food = mla_food meal,
      ml_mealType = mla_mealType meal,
      ml_protein = mla_protein meal,
      ml_carbs = mla_carbs meal,
      ml_fat = mla_fat meal,
      ml_calories = mla_calories meal,
      ml_notes = mla_notes meal\<rparr>"

definition logMeal :: "int \<Rightarrow> string \<Rightarrow> MealLogArg \<Rightarrow> store \<Rightarrow> (error + DailyMacros) \<times> store" where
  "logMeal now fresh meal s =
     (let timestamp = (case mla_timestamp meal of Some t \<Rightarrow> t | None \<Rightarrow> now)
      in case toDateString (newDate timestamp) of
           Inl e \<Rightarrow> (Inl e, s)
         | Inr date \<Rightarrow>
             (let normalizedMeal = normalizeMeal fresh timestamp meal;
                  (existing, s1) = readDaily date s;
                  meals0 = (case existing of Some day \<Rightarrow> dm_meals day | None \<Rightarrow> []);
                  meals = sort_key ml_timestamp (meals0 @ [normalizedMeal]);
                  totals = computeTotals meals;
                  updated = \<lparr>dm_date = date, dm_totals = totals, dm_meals = meals\<rparr>;
                  s2 = writeDaily updated s1;
                  s3 = updateMealDates date s2
              in (Inr updated, s3)))"

text \<open>A run of \<^verbatim>\<open>logMeal\<close> calls; a call that raises ends the run with its error.\<close>

fun logMeals :: "(int \<times> string \<times> MealLogArg) list \<Rightarrow> store \<Rightarrow> (error + unit) \<times> store" where
  "logMeals [] s = (Inr (), s)"
| "logMeals ((now, fresh, meal) # calls) s =
     (case logMeal now fresh meal s of
        (Inl e, s1) \<Rightarrow> (Inl e, s1)
      | (Inr day, s1) \<Rightarrow> logMeals calls s1)"

definition getDailyMacros :: "string \<Rightarrow> store \<Rightarrow> DailyMacros \<times> store" where
  "getDailyMacros date s =
     (let (existing, s1) = readDaily date s
      in case existing of
           Some day \<Rightarrow> (day, s1)
         | None \<Rightarrow> (\<lparr>dm_date = date, dm_totals = EMPTY_TOTALS, dm_meals = []\<rparr>, s1))"

text \<open>
  \<^verbatim>\<open>xs.slice(0, limit)\<close>: the first \<open>limit\<close> elements, and all but the last \<open>- limit\<close> for a
  negative \<open>limit\<close>.
\<close>

definition slice0 :: "'a list \<Rightarrow> int \<Rightarrow> 'a list" where
  "slice0 xs limit =
     (if 0 \<le> limit then take (nat limit) xs else take (length xs - nat (- limit)) xs)"

text \<open>The reads of \<^verbatim>\<open>Promise.all(ordered.map(readDaily))\<close>, one after the other.\<close>

fun readDailies :: "string list \<Rightarrow> store \<Rightarrow> DailyMacros option list \<times> store" where
  "readDailies [] s = ([], s)"
| "readDailies (date # dates) s =
     (let (day, s1) = readDaily date s;
          (days, s2) = readDailies dates s1
      in (day # days, s2))"

definition getMealHistory :: "int \<Rightarrow> store \<Rightarrow> DailyMacros list \<times> store" where
  "getMealHistory limit s =
     (let (v, s1) = storageGet MEAL_DATES s;
          storedDates = (case asDates v of Some ds \<Rightarrow> ds | None \<Rightarrow> [])
      in if storedDates = [] then ([], s1)
         else (let ordered = slice0 (sortDescending storedDates) limit;
                   (results, s2) = readDailies ordered s1
               in (List.map_filter (\<lambda>day. day) results, s2)))"

definition datesOf :: "store \<Rightarrow> string list" where
  "datesOf s = (case asDates (s MEAL_DATES) of Some ds \<Rightarrow> ds | None \<Rightarrow> [])"

definition dailyOf :: "store \<Rightarrow> string \<Rightarrow> DailyMacros option" where
  "dailyOf s date = asDaily (s (getDailyKey date))"

section \<open>Profile (GainChefAgent.getProfile, setProfile; the updateProfile tool)\<close>

definition getProfile :: "store \<Rightarrow> UserProfile option \<times> store" where
  "getProfile s = (let (v, s1) = storageGet PROFILE s in (asProfile v, s1))"

text \<open>
  A property of the object handed to \<^verbatim>\<open>setProfile\<close>: not an own property of the object,
  an own property whose value is \<^verbatim>\<open>undefined\<close>, or an own property with a value. Object
  spread (\<^verbatim>\<open>{...existing, ...profile}\<close>) copies every own property of \<^verbatim>\<open>profile\<close>, the
  undefined ones too, over what \<^verbatim>\<open>existing\<close> has.
\<close>

datatype 'a field = Absent | Undefined | Present 'a

fun spread :: "'a option \<Rightarrow> 'a field \<Rightarrow> 'a option" where
  "spread old Absent = old"
| "spread old Undefined = None"
| "spread old (Present v) = Some v"

record ProfileArg =
  pa_id :: "string field"
  pa_name :: "string field"
  pa_goalType :: "GoalType field"
  pa_weight :: "real field"
  pa_targetWeight :: "real field"
  pa_heightInches :: "real field"
  pa_age :: "real field"
  pa_sex :: "Sex field"
  pa_activityLevel :: "ActivityLevel field"
  pa_macroTargets :: "MacroTargets field"
  pa_restrictions :: "string list field"
  pa_preferences :: "string list field"
  pa_timezone :: "string field"
  pa_updatedAt :: "int field"

text \<open>The empty object \<^verbatim>\<open>{}\<close> that stands in for a profile not stored yet.\<close>

definition emptyProfile :: UserProfile where
  "emptyProfile =
     \<lparr>up_id = None, up_name = None, up_goalType = None, up_weight = None,
      up_targetWeight = None, up_heightInches = None, up_age = None, up_sex = None,
      up_activityLevel = None, up_macroTargets = None, up_restrictions = None,
      up_preferences = None, up_timezone = None, up_updatedAt = None\<rparr>"

definition setProfile :: "int \<Rightarrow> ProfileArg \<Rightarrow> store \<Rightarrow> UserProfile \<times> store" where
  "setProfile now profile s =
     (let (stored, s1) = getProfile s;
          existing = (case stored of Some p \<Rightarrow> p | None \<Rightarrow> emptyProfile);
          merged =
            \<lparr>up_id = spread (up_id existing) (pa_id profile),
             up_name = spread (up_name existing) (pa_name profile),
             up_goalType = spread (up_goalType existing) (pa_goalType profile),
             up_weight = spread (up_weight existing) (pa_weight profile),
             up_targetWeight = spread (up_targetWeight existing) (pa_targetWeight profile),
             up_heightInches = spread (up_heightInches existing) (pa_heightInches profile),
             up_age = spread (up_age existing) (pa_age profile),
             up_sex = spread (up_sex existing) (pa_sex profile),
             up_activityLevel = spread (up_activityLevel existing) (pa_activityLevel profile),
             up_macroTargets = spread (up_macroTargets existing) (pa_macroTargets profile),
             up_restrictions = spread (up_restrictions existing) (pa_restrictions profile),
             up_preferences = spread (up_preferences existing) (pa_preferences profile),
             up_timezone = spread (up_timezone existing) (pa_timezone profile),
             up_updatedAt = Some now\<rparr>
      in (merged, storagePut PROFILE (VProfile merged) s1))"

text \<open>
  The input of the updateProfile tool after its schema (\<^verbatim>\<open>profileUpdateSchema\<close>): every
  field optional, \<^verbatim>\<open>macroTargets\<close> a partial record (\<^verbatim>\<open>macroTargetSchema.partial()\<close>,
  described as "Daily macro targets; provide any fields that are changing"), numbers at
  least 0. A field that was not supplied is not a property of the parsed input.
\<close>

record PartialMacroTargets =
  pm_protein :: "real option"
  pm_carbs :: "real option"
  pm_fat :: "real option"
  pm_calories :: "real option"

record ProfileUpdateInput =
  pu_name :: "string option"
  pu_goalType :: "GoalType option"
  pu_weight :: "real option"
  pu_targetWeight :: "real option"
  pu_heightInches :: "real option"
  pu_age :: "real option"
  pu_sex :: "Sex option"
  pu_activityLevel :: "ActivityLevel option"
  pu_macroTargets :: "PartialMacroTargets option"
  pu_restrictions :: "string list option"
  pu_preferences :: "string list option"
  pu_timezone :: "string option"

fun min0 :: "real option \<Rightarrow> bool" where
  "min0 None = True"
| "min0 (Some x) = (0 \<le> x)"

definition profileUpdateSchema :: "ProfileUpdateInput \<Rightarrow> bool" where
  "profileUpdateSchema input =
     (min0 (pu_weight input) \<and> min0 (pu_targetWeight input) \<and>
      min0 (pu_heightInches input) \<and> min0 (pu_age input) \<and>
      (case pu_macroTargets input of
         None \<Rightarrow> True
       | Some m \<Rightarrow> min0 (pm_protein m) \<and> min0 (pm_carbs m) \<and>
                   min0 (pm_fat m) \<and> min0 (pm_calories m)))"

fun given :: "'a option \<Rightarrow> 'a field" where
  "given None = Absent"
| "given (Some v) = Present v"

text \<open>\<^verbatim>\<open>x ?? 0\<close>\<close>

fun orZero :: "real option \<Rightarrow> real" where
  "orZero None = 0"
| "orZero (Some x) = x"

text \<open>
  The object the tool builds for \<^verbatim>\<open>setProfile\<close>:
  \<^verbatim>\<open>{...input, macroTargets: input.macroTargets ? {protein: input.macroTargets.protein ?? 0, ...} : undefined}\<close>.
  The property \<^verbatim>\<open>macroTargets\<close> is always written, with the value undefined when the
  input has none.
\<close>

definition updateProfileArg :: "ProfileUpdateInput \<Rightarrow> ProfileArg" where
  "updateProfileArg input =
     \<lparr>pa_id = Absent,
      pa_name = given (pu_name input),
      pa_goalType = given (pu_goalType input),
      pa_weight = given (pu_weight input),
      pa_targetWeight = given (pu_targetWeight input),
      pa_heightInches = given (pu_heightInches input),
      pa_age = given (pu_age input),
      pa_sex = given (pu_sex input),
      pa_activityLevel = given (pu_activityLevel input),
      pa_macroTargets =
        (case pu_macroTargets input of
           Some m \<Rightarrow> Present \<lparr>protein = orZero (pm_protein m), carbs = orZero (pm_carbs m),
                               fat = orZero (pm_fat m), calories = orZero (pm_calories m)\<rparr>
         | None \<Rightarrow> Undefined),
      pa_restrictions = given (pu_restrictions input),
      pa_preferences = given (pu_preferences input),
      pa_timezone = given (pu_timezone input),
      pa_updatedAt = Absent\<rparr>"

text \<open>
  The tool's \<^verbatim>\<open>execute\<close>, behind its schema: \<open>agent\<close> says whether \<^verbatim>\<open>getCurrentAgent()\<close>
  finds the agent. The result is the merged profile, from which the confirmation text is
  rendered.
\<close>

definition updateProfile :: "bool \<Rightarrow> int \<Rightarrow> ProfileUpdateInput \<Rightarrow> store \<Rightarrow> (error + UserProfile) \<times> store" where
  "updateProfile agent now input s =
     (if \<not> profileUpdateSchema input then (Inl ValidationError, s)
      else if \<not> agent then (Inl AgentContextUnavailable, s)
      else (let (updated, s1) = setProfile now (updateProfileArg input) s
            in (Inr updated, s1)))"

definition profileOf :: "store \<Rightarrow> UserProfile option" where
  "profileOf s = asProfile (s PROFILE)"

section \<open>Meal plans and shopping lists\<close>


definition saveMealPlan :: "MealPlan \<Rightarrow> store \<Rightarrow> store" where
  "saveMealPlan plan s =
     (let s1 = storagePut MEAL_PLAN_ACTIVE (VPlan plan) s;
          (v, s2) = storageGet MEAL_PLAN_HISTORY s1;
          history = (case asPlanHistory v of Some h \<Rightarrow> h | None \<Rightarrow> []);
          deduped = take MAX_MEAL_PLAN_HISTORY
                      (plan # filter (\<lambda>item. mp_id item \<noteq> mp_id plan) history)
      in storagePut MEAL_PLAN_HISTORY (VPlanHistory deduped) s2)"

definition getMealPlanHistory :: "int \<Rightarrow> store \<Rightarrow> MealPlan list \<times> store" where
  "getMealPlanHistory limit s =
     (let (v, s1) = storageGet MEAL_PLAN_HISTORY s;
          history = (case asPlanHistory v of Some h \<Rightarrow> h | None \<Rightarrow> [])
      in (slice0 history limit, s1))"


definition activePlanOf :: "store \<Rightarrow> MealPlan option" where
  "activePlanOf s = asPlan (s MEAL_PLAN_ACTIVE)"

definition planHistoryOf :: "store \<Rightarrow> MealPlan list" where
  "planHistoryOf s = (case asPlanHistory (s MEAL_PLAN_HISTORY) of Some h \<Rightarrow> h | None \<Rightarrow> [])"










text \<open>
  The saveShoppingList tool. \<^verbatim>\<open>if (input.planId)\<close> holds for a plan id that is given and
  is not the empty string. The result is the stored list.
\<close>

definition truthy :: "string option \<Rightarrow> bool" where
  "truthy x = (case x of None \<Rightarrow> False | Some str \<Rightarrow> str \<noteq> [])"


section \<open>The logMeal and getProgress tools\<close>

text \<open>
  The input of the logMeal tool after its schema (\<^verbatim>\<open>mealLogSchema\<close>): a description of at
  least two characters and macro quantities of at least 0.
\<close>

record MealLogInput =
  mi_food :: string
  mi_mealType :: "MealType option"
  mi_protein :: real
  mi_carbs :: real
  mi_fat :: real
  mi_calories :: real
  mi_notes :: "string option"

definition mealLogSchema :: "MealLogInput \<Rightarrow> bool" where
  "mealLogSchema input =
     (2 \<le> length (mi_food input) \<and> 0 \<le> mi_protein input \<and> 0 \<le> mi_carbs input \<and>
      0 \<le> mi_fat input \<and> 0 \<le> mi_calories input)"

text \<open>
  The tool hands \<^verbatim>\<open>logMeal\<close> the meal with \<^verbatim>\<open>id: ""\<close> and \<^verbatim>\<open>timestamp: Date.now()\<close>.
  The result is the day's record, from whose totals the confirmation text is rendered.
\<close>

definition logMealTool :: "bool \<Rightarrow> int \<Rightarrow> string \<Rightarrow> MealLogInput \<Rightarrow> store \<Rightarrow> (error + DailyMacros) \<times> store" where
  "logMealTool agent now fresh input s =
     (if \<not> mealLogSchema input then (Inl ValidationError, s)
      else if \<not> agent then (Inl AgentContextUnavailable, s)
      else logMeal now fresh
             \<lparr>mla_id = Some [], mla_timestamp = Some now, mla_food = mi_food input,
              mla_mealType = mi_mealType input, mla_protein = mi_protein input,
              mla_carbs = mi_carbs input, mla_fat = mi_fat input,
              mla_calories = mi_calories input, mla_notes = mi_notes input\<rparr> s)"

text \<open>\<^verbatim>\<open>parts.join(sep)\<close>\<close>

fun joinWith :: "string \<Rightarrow> string list \<Rightarrow> string" where
  "joinWith sep [] = []"
| "joinWith sep [x] = x"
| "joinWith sep (x # y # zs) = x @ sep @ joinWith sep (y # zs)"

text \<open>
  \<^verbatim>\<open>formatProgress\<close> (tools.ts). \<open>str\<close> is the text JavaScript gives a number in a
  template literal.
\<close>

definition macroText :: "(real \<Rightarrow> string) \<Rightarrow> MacroTargets \<Rightarrow> string" where
  "macroText str m =
     str (protein m) @ ''p / '' @ str (carbs m) @ ''c / '' @ str (fat m) @ ''f ('' @
     str (calories m) @ '' cal)''"

definition formatProgress :: "(real \<Rightarrow> string) \<Rightarrow> UserProfile option \<Rightarrow> DailyMacros \<Rightarrow> DailyMacros list \<Rightarrow> string" where
  "formatProgress str profile today history =
     (let todayTotals = dm_totals today;
          profileTarget = (case profile of None \<Rightarrow> None | Some p \<Rightarrow> up_macroTargets p);
          baseLines =
            [''Today ('' @ dm_date today @ ''): '' @ macroText str todayTotals,
             if dm_meals today \<noteq> []
             then ''Meals logged: '' @ joinWith '', '' (take 5 (map ml_food (dm_meals today)))
             else ''No meals logged yet today.''];
          baseLines1 =
            (case profileTarget of
               Some target \<Rightarrow> baseLines @ [''Targets: '' @ macroText str target]
             | None \<Rightarrow> baseLines);
          baseLines2 =
            (if length history > 1
             then (let otherDays = take 3 (filter (\<lambda>day. dm_date day \<noteq> dm_date today) history)
                   in if otherDays \<noteq> []
                      then baseLines1 @ ''Recent days:'' #
                             map (\<lambda>day. ''- '' @ dm_date day @ '': '' @ macroText str (dm_totals day) @
                                         '', '' @ str (real (length (dm_meals day))) @ '' meals'')
                                 otherDays
                      else baseLines1)
             else baseLines1)
      in joinWith [CHR 0x0A] baseLines2)"

text \<open>
  The input of the getProgress tool: \<^verbatim>\<open>days\<close> is
  \<^verbatim>\<open>z.number().int().min(1).max(30).default(3)\<close>. \<open>None\<close> is an input without \<^verbatim>\<open>days\<close>.
\<close>

definition progressDays :: "real option \<Rightarrow> error + int" where
  "progressDays days =
     (case days of
        None \<Rightarrow> Inr 3
      | Some d \<Rightarrow> if d = of_int \<lfloor>d\<rfloor> \<and> 1 \<le> d \<and> d \<le> 30 then Inr \<lfloor>d\<rfloor> else Inl ValidationError)"

text \<open>
  The tool's \<^verbatim>\<open>execute\<close>: the profile, today's record (the date of \<^verbatim>\<open>new Date()\<close>, the clock
  reading \<open>now\<close>) and the history are read, and the text is formatted from them.
\<close>

definition getProgress :: "(real \<Rightarrow> string) \<Rightarrow> bool \<Rightarrow> int \<Rightarrow> real option \<Rightarrow> store \<Rightarrow> (error + string) \<times> store" where
  "getProgress str agent now input s =
     (case progressDays input of
        Inl e \<Rightarrow> (Inl e, s)
      | Inr days \<Rightarrow>
          if \<not> agent then (Inl AgentContextUnavailable, s)
          else (let (profile, s1) = getProfile s
                in case toDateString (newDate now) of
                     Inl e \<Rightarrow> (Inl e, s1)
                   | Inr date \<Rightarrow>
                       (let (today, s2) = getDailyMacros date s1;
                            (history, s3) = getMealHistory days s2
                        in (Inr (formatProgress str profile today history), s3))))"

section \<open>Model fallback (resolveModel, isRecoverableModelError, onChatMessage)\<close>

text \<open>
  What a generation attempt throws: an instance of \<^verbatim>\<open>Error\<close> with its name and message,
  or some other value. \<^verbatim>\<open>isRecoverableModelError\<close> reads \<^verbatim>\<open>message\<close> and \<^verbatim>\<open>name\<close> off an
  Error and takes both as the empty string otherwise.
\<close>

datatype thrown = ErrorInstance string string | NonError

fun thrownName :: "thrown \<Rightarrow> string" where
  "thrownName (ErrorInstance name message) = name"
| "thrownName NonError = []"

fun thrownMessage :: "thrown \<Rightarrow> string" where
  "thrownMessage (ErrorInstance name message) = message"
| "thrownMessage NonError = []"

text \<open>\<^verbatim>\<open>String.prototype.startsWith\<close> and \<^verbatim>\<open>String.prototype.includes\<close>\<close>

fun startsWith :: "string \<Rightarrow> string \<Rightarrow> bool" where
  "startsWith text [] = True"
| "startsWith [] (c # cs) = False"
| "startsWith (d # ds) (c # cs) = (d = c \<and> startsWith ds cs)"

fun str_includes :: "string \<Rightarrow> string \<Rightarrow> bool" where
  "str_includes [] sub = (sub = [])"
| "str_includes (d # ds) sub = (startsWith (d # ds) sub \<or> str_includes ds sub)"

definition isRecoverableModelError :: "thrown \<Rightarrow> bool" where
  "isRecoverableModelError error =
     (let message = thrownMessage error; name = thrownName error
      in str_includes message ''No such model'' \<or> str_includes message ''5007'' \<or>
         name = ''InferenceUpstreamError'')"

text \<open>
  A resolved model: provider, whether it takes tools, and the model \<^verbatim>\<open>fallback()\<close> returns
  when there is one (the optional property \<^verbatim>\<open>fallback?: () => ResolvedModel\<close>). The backend
  itself is not part of the model.
\<close>

datatype ResolvedModel = ResolvedModel string bool "ResolvedModel option"

fun provider :: "ResolvedModel \<Rightarrow> string" where
  "provider (ResolvedModel p t f) = p"

fun supportsTools :: "ResolvedModel \<Rightarrow> bool" where
  "supportsTools (ResolvedModel p t f) = t"

fun fallback :: "ResolvedModel \<Rightarrow> ResolvedModel option" where
  "fallback (ResolvedModel p t f) = f"

text \<open>
  \<^verbatim>\<open>resolveModel\<close>: the key is \<^verbatim>\<open>env.OPENAI_API_KEY || process.env.OPENAI_API_KEY\<close>; without a
  key (undefined or the empty string) the result is null, and with one it is the OpenAI
  model, which takes tools. The object it returns has no \<^verbatim>\<open>fallback\<close> property. (The calls
  that build the provider object only construct it; the \<^verbatim>\<open>catch\<close> around them returns null
  as the missing key does.)
\<close>

definition resolveModel :: "string option \<Rightarrow> string option \<Rightarrow> ResolvedModel option" where
  "resolveModel envKey processKey =
     (let openaiKey = (if truthy envKey then envKey else processKey)
      in if \<not> truthy openaiKey then None
         else Some (ResolvedModel ''openai:gpt-4o-mini'' True None))"

text \<open>
  What \<^verbatim>\<open>onChatMessage\<close> does once the request is admitted and on topic, as the list of
  its actions: calls of \<^verbatim>\<open>runModel\<close>, plain texts streamed to the user, and failures that
  reach the response stream.

  \<^verbatim>\<open>runModel(info)\<close> builds the options (\<^verbatim>\<open>convertToModelMessages\<close>), calls \<^verbatim>\<open>streamText\<close>
  and merges the stream it returns into the response (\<^verbatim>\<open>writer.merge\<close>); it does not await
  the generation. So a call can fail in two ways. It can throw while it runs: \<open>sync k info\<close>
  is what the call number \<open>k\<close> of \<^verbatim>\<open>runModel\<close> throws (\<open>None\<close> when it returns), and this
  is what the \<^verbatim>\<open>try\<close>/\<^verbatim>\<open>catch\<close> around the first call sees. Or the backend can fail the
  generation after \<^verbatim>\<open>runModel\<close> has returned: \<open>backend info\<close> is that failure (\<open>None\<close> when
  the generation succeeds); it arrives in the merged stream, outside the \<^verbatim>\<open>try\<close> block,
  and is recorded here as \<open>StreamFailure\<close> (what the stream machinery shows the user for it
  is not the repository's code). The second component of the result is the exception that
  leaves the block: the one a retry throws, which nothing catches.
\<close>

datatype action = RunModel ResolvedModel | StreamPlainText string | StreamFailure thrown

definition GENERATION_FAILED :: string where
  "GENERATION_FAILED = ''I hit a snag generating that answer. Please try again in a moment.''"

definition MODEL_UNAVAILABLE :: string where
  "MODEL_UNAVAILABLE =
     ''i can't reach an ai model right now. make sure an openai key is configured.''"

definition backendStream :: "(ResolvedModel \<Rightarrow> thrown option) \<Rightarrow> ResolvedModel \<Rightarrow> action list" where
  "backendStream backend info =
     (case backend info of None \<Rightarrow> [] | Some error \<Rightarrow> [StreamFailure error])"

definition generateWithFallback :: "(nat \<Rightarrow> ResolvedModel \<Rightarrow> thrown option) \<Rightarrow> (ResolvedModel \<Rightarrow> thrown option) \<Rightarrow> ResolvedModel \<Rightarrow> action list \<times> thrown option" where
  "generateWithFallback sync backend modelInfo =
     (case sync 0 modelInfo of
        None \<Rightarrow> (RunModel modelInfo # backendStream backend modelInfo, None)
      | Some error \<Rightarrow>
          (case fallback modelInfo of
             Some fallbackInfo \<Rightarrow>
               if isRecoverableModelError error
               then (case sync 1 fallbackInfo of
                       None \<Rightarrow>
                         ([RunModel modelInfo, RunModel fallbackInfo]
                            @ backendStream backend fallbackInfo, None)
                     | Some error2 \<Rightarrow> ([RunModel modelInfo, RunModel fallbackInfo], Some error2))
               else ([RunModel modelInfo, StreamPlainText GENERATION_FAILED], None)
           | None \<Rightarrow> ([RunModel modelInfo, StreamPlainText GENERATION_FAILED], None)))"

text \<open>
  The reply to an admitted, on-topic chat turn: the fixed text when no model is resolved,
  the generation otherwise.
\<close>

definition generateReply :: "string option \<Rightarrow> string option \<Rightarrow> (nat \<Rightarrow> ResolvedModel \<Rightarrow> thrown option) \<Rightarrow> (ResolvedModel \<Rightarrow> thrown option) \<Rightarrow> action list \<times> thrown option" where
  "generateReply envKey processKey sync backend =
     (case resolveModel envKey processKey of
        None \<Rightarrow> ([StreamPlainText MODEL_UNAVAILABLE], None)
      | Some modelInfo \<Rightarrow> generateWithFallback sync backend modelInfo)"

text \<open>The calls of \<^verbatim>\<open>runModel\<close> after the first one, and the texts streamed.\<close>

fun isRunModel :: "action \<Rightarrow> bool" where
  "isRunModel (RunModel info) = True"
| "isRunModel other = False"

fun isStreamPlainText :: "action \<Rightarrow> bool" where
  "isStreamPlainText (StreamPlainText text) = True"
| "isStreamPlainText other = False"

definition retries :: "action list \<Rightarrow> action list" where
  "retries actions = tl (filter isRunModel actions)"

definition streamed :: "action list \<Rightarrow> action list" where
  "streamed actions = filter isStreamPlainText actions"

section \<open>The workflow trigger endpoint (fetch, /trigger-workflow)\<close>

datatype json =
    JNull
  | JBool bool
  | JNumber real
  | JString string
  | JArray "json list"
  | JObject "(string \<times> json) list"

record Response =
  rs_status :: nat
  rs_body :: json

text \<open>\<^verbatim>\<open>!body\<close>, \<^verbatim>\<open>typeof body === "object"\<close> and \<^verbatim>\<open>"type" in body\<close>\<close>

fun falsy :: "json \<Rightarrow> bool" where
  "falsy JNull = True"
| "falsy (JBool b) = (\<not> b)"
| "falsy (JNumber x) = (x = 0)"
| "falsy (JString str) = (str = [])"
| "falsy (JArray xs) = False"
| "falsy (JObject kvs) = False"

fun typeofObject :: "json \<Rightarrow> bool" where
  "typeofObject JNull = True"
| "typeofObject (JArray xs) = True"
| "typeofObject (JObject kvs) = True"
| "typeofObject other = False"

fun hasProperty :: "string \<Rightarrow> json \<Rightarrow> bool" where
  "hasProperty key (JObject kvs) = (map_of kvs key \<noteq> None)"
| "hasProperty key other = False"

text \<open>
  The handler: \<open>parsed\<close> is what \<^verbatim>\<open>request.json()\<close> returns (\<open>None\<close> when it throws),
  \<open>create\<close> the scheduler's \<^verbatim>\<open>env.MEAL_PREP.create\<close>, which returns the identifier of the
  instance or throws (\<open>None\<close>). The second component lists the payloads handed to the
  scheduler.
\<close>

definition errorResponse :: "string \<Rightarrow> Response" where
  "errorResponse message = \<lparr>rs_status = 400, rs_body = JObject [(''error'', JString message)]\<rparr>"

definition triggerWorkflow :: "(json \<Rightarrow> string option) \<Rightarrow> json option \<Rightarrow> Response \<times> json list" where
  "triggerWorkflow create parsed =
     (case parsed of
        None \<Rightarrow> (errorResponse ''Failed to trigger workflow'', [])
      | Some body \<Rightarrow>
          if falsy body \<or> \<not> typeofObject body \<or> \<not> hasProperty ''type'' body
          then (errorResponse ''Invalid workflow payload'', [])
          else (case create body of
                  None \<Rightarrow> (errorResponse ''Failed to trigger workflow'', [body])
                | Some instanceId \<Rightarrow>
                    (\<lparr>rs_status = 202,
                      rs_body = JObject [(''workflowId'', JString instanceId),
                                         (''status'', JString ''queued'')]\<rparr>,
                     [body])))"

section \<open>The specification's words, for comparison with the code\<close>

text \<open>
  The calendar date of a timestamp in a zone whose clocks are \<open>offsetMinutes\<close> ahead of
  UTC: the date a clock in that zone shows at that instant.
\<close>

definition localDateString :: "int \<Rightarrow> int \<Rightarrow> error + string" where
  "localDateString offsetMinutes timestamp = toDateString (newDate (timestamp + offsetMinutes * 60000))"

text \<open>
  A malformed workflow payload, in the specification's words: its \<^verbatim>\<open>type\<close> tag is missing
  or is not one of the three known tags.
\<close>

definition knownTags :: "string list" where
  "knownTags = [''weekly_meal_prep'', ''daily_macro_check'', ''monthly_report'']"

fun typeTag :: "json \<Rightarrow> json option" where
  "typeTag (JObject kvs) = map_of kvs ''type''"
| "typeTag other = None"

definition malformedPayload :: "json \<Rightarrow> bool" where
  "malformedPayload body =
     (case typeTag body of
        Some (JString tag) \<Rightarrow> tag \<notin> set knownTags
      | other \<Rightarrow> True)"

section \<open>Runs of logMeal calls\<close>

text \<open>
  A call of \<^verbatim>\<open>logMeal\<close> is the clock reading, the identifier generated for it and the meal
  passed. Its timestamp is \<^verbatim>\<open>meal.timestamp ?? Date.now()\<close>, its date the date string of
  that timestamp, and the meal it stores the normalized one.
\<close>

type_synonym logMealCall = "int \<times> string \<times> MealLogArg"

fun callTimestamp :: "logMealCall \<Rightarrow> int" where
  "callTimestamp (now, fresh, meal) = (case mla_timestamp meal of Some t \<Rightarrow> t | None \<Rightarrow> now)"

definition callDate :: "logMealCall \<Rightarrow> error + string" where
  "callDate call = toDateString (newDate (callTimestamp call))"

fun loggedMeal :: "logMealCall \<Rightarrow> MealLog" where
  "loggedMeal (now, fresh, meal) = normalizeMeal fresh (callTimestamp (now, fresh, meal)) meal"

definition mealsOn :: "store \<Rightarrow> string \<Rightarrow> MealLog list" where
  "mealsOn s date = (case dailyOf s date of Some day \<Rightarrow> dm_meals day | None \<Rightarrow> [])"





text \<open>
  A date key of the form \<^verbatim>\<open>YYYY-MM-DD\<close>: ten characters, digits but for the two hyphens.
  These are the date strings of the years 0 to 9999.
\<close>

definition isDigit :: "char \<Rightarrow> bool" where
  "isDigit c = (c \<in> set ''0123456789'')"

fun isDateKey :: "string \<Rightarrow> bool" where
  "isDateKey [y1, y2, y3, y4, h1, m1, m2, h2, d1, d2] =
     (isDigit y1 \<and> isDigit y2 \<and> isDigit y3 \<and> isDigit y4 \<and> h1 = CHR ''-'' \<and>
      isDigit m1 \<and> isDigit m2 \<and> h2 = CHR ''-'' \<and> isDigit d1 \<and> isDigit d2)"
| "isDateKey other = False"

text \<open>
  Insertion of a date into a strictly descending list of dates; a date already there is not
  inserted again. This is not a function of the program: the proofs about the index of
  dates describe what \<^verbatim>\<open>updateMealDates\<close> computes on such a list with it.
\<close>

fun insertDescending :: "string \<Rightarrow> string list \<Rightarrow> string list" where
  "insertDescending d [] = [d]"
| "insertDescending d (x # xs) =
     (if x < d then d # x # xs else if d = x then x # xs else x # insertDescending d xs)"

section \<open>Sample values\<close>

text \<open>A plan with no days, for concrete instances of the statements below.\<close>

definition plan0 :: "string \<Rightarrow> int \<Rightarrow> MealPlan" where
  "plan0 i t = \<lparr>mp_id = i, mp_createdAt = t, mp_timeframe = daily, mp_days = [], mp_shoppingListId = None\<rparr>"

text \<open>
  The payload of the repository's test of the endpoint, a scheduler that accepts whatever
  it is given and answers the identifier \<^verbatim>\<open>wf_test\<close>, as the test's stub does, and a
  scheduler whose \<^verbatim>\<open>create\<close> throws.
\<close>

definition acceptingScheduler :: "json \<Rightarrow> string option" where
  "acceptingScheduler body = Some ''wf_test''"

definition failingScheduler :: "json \<Rightarrow> string option" where
  "failingScheduler body = None"

definition dailyCheckPayload :: json where
  "dailyCheckPayload =
     JObject [(''type'', JString ''daily_macro_check''), (''userId'', JString ''user_demo''),
              (''profileSnapshot'', JNull), (''date'', JString ''2025-10-13'')]"







text \<open>A stored profile with macro targets, and an update that supplies nothing.\<close>

definition sampleProfile :: UserProfile where
  "sampleProfile =
     emptyProfile\<lparr>up_name := Some ''Sam'', up_weight := Some 180,
                  up_macroTargets := Some \<lparr>protein = 180, carbs = 250, fat = 70, calories = 2500\<rparr>\<rparr>"

definition profileStore :: store where
  "profileStore = Map.empty(PROFILE \<mapsto> VProfile sampleProfile)"

definition noUpdate :: ProfileUpdateInput where
  "noUpdate =
     \<lparr>pu_name = None, pu_goalType = None, pu_weight = None, pu_targetWeight = None,
      pu_heightInches = None, pu_age = None, pu_sex = None, pu_activityLevel = None,
      pu_macroTargets = None, pu_restrictions = None, pu_preferences = None,
      pu_timezone = None\<rparr>"

text \<open>
  A session with an OpenAI key whose backend fails the generation with "No such model",
  runs of \<^verbatim>\<open>runModel\<close> that never throw, that throw on the first call only, and that throw
  on every call, and a resolved model that has a fallback (which \<^verbatim>\<open>resolveModel\<close> never
  returns).
\<close>

definition openaiModel :: ResolvedModel where
  "openaiModel = ResolvedModel ''openai:gpt-4o-mini'' True None"

definition noSuchModel :: thrown where
  "noSuchModel = ErrorInstance ''Error'' ''No such model: gpt-4o-mini''"

definition neverThrows :: "nat \<Rightarrow> ResolvedModel \<Rightarrow> thrown option" where
  "neverThrows k info = None"

definition throwsFirst :: "thrown \<Rightarrow> nat \<Rightarrow> ResolvedModel \<Rightarrow> thrown option" where
  "throwsFirst error k info = (if k = 0 then Some error else None)"

definition backendFails :: "thrown \<Rightarrow> ResolvedModel \<Rightarrow> thrown option" where
  "backendFails error info = Some error"

definition backendWorks :: "ResolvedModel \<Rightarrow> thrown option" where
  "backendWorks info = None"

definition backupModel :: ResolvedModel where
  "backupModel = ResolvedModel ''backup'' False None"

definition primaryModel :: ResolvedModel where
  "primaryModel = ResolvedModel ''primary'' True (Some backupModel)"

text \<open>The two meals of the specification's scenario, as the logMeal tool passes them.\<close>

definition eggsAt :: "int \<Rightarrow> MealLogArg" where
  "eggsAt t =
     \<lparr>mla_id = Some '''', mla_timestamp = Some t, mla_food = ''3 eggs'', mla_mealType = None,
      mla_protein = 18, mla_carbs = 1, mla_fat = 15, mla_calories = 210, mla_notes = None\<rparr>"







text \<open>Thirty-one calls, one per day of January 1970, the latest day logged first.\<close>

definition januaryCalls :: "logMealCall list" where
  "januaryCalls = map (\<lambda>k. (0, ''id'', eggsAt (int k * 86400000))) (rev [0..<31])"

definition januaryDates :: "string list" where
  "januaryDates = map (\<lambda>k. ''1970-01-'' @ pad2 (int k + 1)) (rev [0..<31])"

text \<open>A session whose profile names the zone Asia/Tokyo, nine hours ahead of UTC all year.\<close>

definition tokyoStore :: store where
  "tokyoStore = Map.empty(PROFILE \<mapsto> VProfile (emptyProfile\<lparr>up_timezone := Some ''Asia/Tokyo''\<rparr>))"

section \<open>Rate limiter: proofs\<close>

lemma bumpRateLimit_in_window:
  assumes "rateLimitOf s = Some r" and "now \<le> rl_reset r"
  shows "bumpRateLimit now s =
           (if rl_count r \<ge> 20 then (False, s(RATE_LIMIT_KEY \<mapsto> VRateLimit r))
            else (True, s(RATE_LIMIT_KEY \<mapsto> VRateLimit (r\<lparr>rl_count := rl_count r + 1\<rparr>))))"
  using assms
  by (simp add: bumpRateLimit_def storageGet_def storagePut_def rateLimitOf_def
      RATE_LIMIT_MAX_REQUESTS_def Let_def)

lemma bumpRateLimit_fresh:
  assumes "rateLimitOf s = None"
  shows "bumpRateLimit now s =
           (True, s(RATE_LIMIT_KEY \<mapsto>
              VRateLimit \<lparr>rl_count = 1, rl_reset = now + RATE_LIMIT_WINDOW_MS\<rparr>))"
  using assms
  by (simp add: bumpRateLimit_def storageGet_def storagePut_def rateLimitOf_def
      RATE_LIMIT_MAX_REQUESTS_def RATE_LIMIT_WINDOW_MS_def Let_def)

lemma bumpRateLimit_expired:
  assumes "rateLimitOf s = Some r" and "now > rl_reset r"
  shows "bumpRateLimit now s =
           (True, s(RATE_LIMIT_KEY \<mapsto>
              VRateLimit \<lparr>rl_count = 1, rl_reset = now + RATE_LIMIT_WINDOW_MS\<rparr>))"
  using assms
  by (cases r)
     (simp add: bumpRateLimit_def storageGet_def storagePut_def rateLimitOf_def
        RATE_LIMIT_MAX_REQUESTS_def RATE_LIMIT_WINDOW_MS_def Let_def)

lemma rateLimitOf_upd [simp]:
  "rateLimitOf (s(RATE_LIMIT_KEY \<mapsto> VRateLimit r)) = Some r"
  by (simp add: rateLimitOf_def)

text \<open>
  Inside one window, with \<open>c\<close> requests already counted, the next \<open>n\<close> calls admit the
  first \<open>20 - c\<close> of them and refuse the rest.
\<close>

lemma admitAll_in_window:
  assumes "rateLimitOf s = Some r"
    and "\<forall>t \<in> set nows. t \<le> rl_reset r"
    and "0 \<le> rl_count r" and "rl_count r \<le> 20"
  shows "fst (admitAll nows s) =
           replicate (min (length nows) (nat (20 - rl_count r))) True @
           replicate (length nows - nat (20 - rl_count r)) False"
  using assms
proof (induction nows arbitrary: s r)
  case Nil
  then show ?case by simp
next
  case (Cons now nows)
  have inw: "now \<le> rl_reset r" using Cons.prems(2) by simp
  show ?case
  proof (cases "rl_count r \<ge> 20")
    case True
    then have c20: "rl_count r = 20" using Cons.prems(4) by simp
    let ?s1 = "s(RATE_LIMIT_KEY \<mapsto> VRateLimit r)"
    have step: "bumpRateLimit now s = (False, ?s1)"
      using bumpRateLimit_in_window [OF Cons.prems(1) inw] True by simp
    have r1: "rateLimitOf ?s1 = Some r" by simp
    have w1: "\<forall>t \<in> set nows. t \<le> rl_reset r" using Cons.prems(2) by simp
    have ih: "fst (admitAll nows ?s1) =
           replicate (min (length nows) (nat (20 - rl_count r))) True @
           replicate (length nows - nat (20 - rl_count r)) False"
      by (rule Cons.IH [OF r1 w1 Cons.prems(3) Cons.prems(4)])
    show ?thesis
      using step ih c20 by (simp add: split_beta)
  next
    case False
    let ?r1 = "r\<lparr>rl_count := rl_count r + 1\<rparr>"
    let ?s1 = "s(RATE_LIMIT_KEY \<mapsto> VRateLimit ?r1)"
    have step: "bumpRateLimit now s = (True, ?s1)"
      using bumpRateLimit_in_window [OF Cons.prems(1) inw] False by simp
    have r1: "rateLimitOf ?s1 = Some ?r1" by simp
    have w1: "\<forall>t \<in> set nows. t \<le> rl_reset ?r1" using Cons.prems(2) by simp
    have c0: "0 \<le> rl_count ?r1" using Cons.prems(3) by simp
    have c1: "rl_count ?r1 \<le> 20" using False by simp
    have ih: "fst (admitAll nows ?s1) =
           replicate (min (length nows) (nat (20 - rl_count ?r1))) True @
           replicate (length nows - nat (20 - rl_count ?r1)) False"
      by (rule Cons.IH [OF r1 w1 c0 c1])
    have n: "nat (20 - rl_count r) = Suc (nat (20 - (rl_count r + 1)))"
      using False by simp
    show ?thesis
      using step ih by (simp add: split_beta n)
  qed
qed

text \<open>
  Claim C2. With cap 20 and a window of 10 minutes: starting from a store with no
  rate-limit record, 21 calls whose clock readings all lie within the window opened by the
  first call (none is later than the first reading plus 600000 ms) answer true twenty times
  and then false; and a call whose clock reading is strictly after the stored reset time
  answers true and leaves a record with count 1 and reset time now + 600000 ms.
\<close>

theorem rate_limiter_window:
  "(rateLimitOf s = None \<and> length nows = 19 \<and>
       (\<forall>t \<in> set (nows @ [t21]). t \<le> t1 + 600000)
     \<longrightarrow> fst (admitAll (t1 # nows @ [t21]) s) = replicate 20 True @ [False])
   \<and> (rateLimitOf s = Some r \<and> now > rl_reset r
     \<longrightarrow> fst (bumpRateLimit now s) = True
         \<and> rateLimitOf (snd (bumpRateLimit now s)) =
             Some \<lparr>rl_count = 1, rl_reset = now + 600000\<rparr>)"
proof (intro conjI impI)
  assume a: "rateLimitOf s = None \<and> length nows = 19 \<and>
       (\<forall>t \<in> set (nows @ [t21]). t \<le> t1 + 600000)"
  let ?r1 = "\<lparr>rl_count = 1, rl_reset = t1 + RATE_LIMIT_WINDOW_MS\<rparr>"
  let ?s1 = "s(RATE_LIMIT_KEY \<mapsto> VRateLimit ?r1)"
  have step: "bumpRateLimit t1 s = (True, ?s1)"
    using a bumpRateLimit_fresh by simp
  have r1: "rateLimitOf ?s1 = Some ?r1" by simp
  have w1: "\<forall>t \<in> set (nows @ [t21]). t \<le> rl_reset ?r1"
    using a by (simp add: RATE_LIMIT_WINDOW_MS_def)
  have rest: "fst (admitAll (nows @ [t21]) ?s1) =
           replicate (min (length (nows @ [t21])) (nat (20 - rl_count ?r1))) True @
           replicate (length (nows @ [t21]) - nat (20 - rl_count ?r1)) False"
    by (rule admitAll_in_window [OF r1 w1]) simp_all
  have "fst (admitAll (nows @ [t21]) ?s1) = replicate 19 True @ [False]"
    using rest a by (simp add: numeral_eq_Suc)
  then show "fst (admitAll (t1 # nows @ [t21]) s) = replicate 20 True @ [False]"
    using step by (simp add: split_beta numeral_eq_Suc)
next
  assume b: "rateLimitOf s = Some r \<and> now > rl_reset r"
  then show "fst (bumpRateLimit now s) = True"
    using bumpRateLimit_expired [of s r now] by simp
next
  assume b: "rateLimitOf s = Some r \<and> now > rl_reset r"
  then show "rateLimitOf (snd (bumpRateLimit now s)) =
             Some \<lparr>rl_count = 1, rl_reset = now + 600000\<rparr>"
    using bumpRateLimit_expired [of s r now] by (simp add: RATE_LIMIT_WINDOW_MS_def)
qed

theorem rate_limiter_window_witness:
  "fst (admitAll (0 # replicate 19 1000 @ [2000]) Map.empty) = replicate 20 True @ [False]
   \<and> fst (bumpRateLimit 700001
            (Map.empty(RATE_LIMIT_KEY \<mapsto> VRateLimit \<lparr>rl_count = 20, rl_reset = 700000\<rparr>))) = True
   \<and> rateLimitOf (snd (bumpRateLimit 700001
            (Map.empty(RATE_LIMIT_KEY \<mapsto> VRateLimit \<lparr>rl_count = 20, rl_reset = 700000\<rparr>)))) =
         Some \<lparr>rl_count = 1, rl_reset = 1300001\<rparr>"
proof -
  have h1: "rateLimitOf Map.empty = None \<and> length (replicate 19 (1000::int)) = 19 \<and>
       (\<forall>t \<in> set (replicate 19 1000 @ [2000]). t \<le> (0::int) + 600000)"
    by (simp add: rateLimitOf_def)
  have c1: "fst (admitAll (0 # replicate 19 1000 @ [2000]) Map.empty) = replicate 20 True @ [False]"
    using rate_limiter_window [where s = Map.empty and nows = "replicate 19 1000" and ?t21.0 = 2000 and ?t1.0 = 0] h1
    by blast
  let ?s = "Map.empty(RATE_LIMIT_KEY \<mapsto> VRateLimit \<lparr>rl_count = 20, rl_reset = 700000\<rparr>)"
  have h2: "rateLimitOf ?s = Some \<lparr>rl_count = 20, rl_reset = 700000\<rparr> \<and>
            700001 > rl_reset \<lparr>rl_count = 20, rl_reset = 700000\<rparr>"
    by simp
  have c2: "fst (bumpRateLimit 700001 ?s) = True \<and>
            rateLimitOf (snd (bumpRateLimit 700001 ?s)) = Some \<lparr>rl_count = 1, rl_reset = 700001 + 600000\<rparr>"
    using rate_limiter_window [where s = ?s and r = "\<lparr>rl_count = 20, rl_reset = 700000\<rparr>" and now = 700001] h2
    by blast
  show ?thesis using c1 c2 by simp
qed

section \<open>Meal plan history: proofs\<close>

lemma key_distinct:
  "MEAL_PLAN_ACTIVE \<noteq> MEAL_PLAN_HISTORY" "MEAL_PLAN_HISTORY \<noteq> MEAL_PLAN_ACTIVE"
  "SHOPPING_LISTS \<noteq> MEAL_PLAN_ACTIVE" "SHOPPING_LISTS \<noteq> MEAL_PLAN_HISTORY"
  "MEAL_PLAN_ACTIVE \<noteq> SHOPPING_LISTS" "MEAL_PLAN_HISTORY \<noteq> SHOPPING_LISTS"
  by (simp_all add: MEAL_PLAN_ACTIVE_def MEAL_PLAN_HISTORY_def SHOPPING_LISTS_def)

lemma saveMealPlan_eq:
  "saveMealPlan p s =
     s(MEAL_PLAN_ACTIVE \<mapsto> VPlan p,
       MEAL_PLAN_HISTORY \<mapsto> VPlanHistory (take 5 (p # filter (\<lambda>item. mp_id item \<noteq> mp_id p) (planHistoryOf s))))"
  by (simp add: saveMealPlan_def storageGet_def storagePut_def planHistoryOf_def
      MAX_MEAL_PLAN_HISTORY_def key_distinct)

lemma activePlanOf_saveMealPlan: "activePlanOf (saveMealPlan p s) = Some p"
  by (simp add: saveMealPlan_eq activePlanOf_def key_distinct)

lemma planHistoryOf_saveMealPlan:
  "planHistoryOf (saveMealPlan p s) =
     take 5 (p # filter (\<lambda>item. mp_id item \<noteq> mp_id p) (planHistoryOf s))"
  by (simp add: saveMealPlan_eq planHistoryOf_def)

text \<open>
  Claim C5. For every store and every plan \<open>p\<close>, after \<^verbatim>\<open>saveMealPlan(p)\<close> the stored history
  is \<open>p\<close> followed by the old entries whose id differs from that of \<open>p\<close>, cut to five:
  its first element is \<open>p\<close>, no other entry has the id of \<open>p\<close>, its length is at most 5,
  and the active plan is \<open>p\<close>.
\<close>

theorem saveMealPlan_history:
  "planHistoryOf (saveMealPlan p s) =
     take 5 (p # filter (\<lambda>item. mp_id item \<noteq> mp_id p) (planHistoryOf s))
   \<and> hd (planHistoryOf (saveMealPlan p s)) = p
   \<and> planHistoryOf (saveMealPlan p s) \<noteq> []
   \<and> (\<forall>q \<in> set (tl (planHistoryOf (saveMealPlan p s))). mp_id q \<noteq> mp_id p)
   \<and> length (planHistoryOf (saveMealPlan p s)) \<le> 5
   \<and> activePlanOf (saveMealPlan p s) = Some p"
proof (intro conjI)
  let ?rest = "filter (\<lambda>item. mp_id item \<noteq> mp_id p) (planHistoryOf s)"
  have h: "planHistoryOf (saveMealPlan p s) = p # take 4 ?rest"
    by (simp add: planHistoryOf_saveMealPlan numeral_eq_Suc)
  show "planHistoryOf (saveMealPlan p s) = take 5 (p # ?rest)"
    by (rule planHistoryOf_saveMealPlan)
  show "hd (planHistoryOf (saveMealPlan p s)) = p"
    by (simp only: h list.sel)
  show "planHistoryOf (saveMealPlan p s) \<noteq> []"
    by (simp only: h list.distinct not_False_eq_True)
  have nodup: "\<forall>q \<in> set (take 4 ?rest). mp_id q \<noteq> mp_id p"
    by (auto dest: in_set_takeD)
  then show "\<forall>q \<in> set (tl (planHistoryOf (saveMealPlan p s))). mp_id q \<noteq> mp_id p"
    by (simp only: h list.sel)
  have "length (p # take 4 ?rest) \<le> 5"
    by simp
  then show "length (planHistoryOf (saveMealPlan p s)) \<le> 5"
    by (simp only: h)
  show "activePlanOf (saveMealPlan p s) = Some p"
    by (rule activePlanOf_saveMealPlan)
qed

theorem saveMealPlan_history_witness:
  "planHistoryOf (saveMealPlan (plan0 ''c'' 9)
      (Map.empty(MEAL_PLAN_HISTORY \<mapsto>
         VPlanHistory [plan0 ''a'' 1, plan0 ''b'' 2, plan0 ''c'' 3, plan0 ''d'' 4, plan0 ''e'' 5])))
     = [plan0 ''c'' 9, plan0 ''a'' 1, plan0 ''b'' 2, plan0 ''d'' 4, plan0 ''e'' 5]
   \<and> activePlanOf (saveMealPlan (plan0 ''c'' 9)
      (Map.empty(MEAL_PLAN_HISTORY \<mapsto>
         VPlanHistory [plan0 ''a'' 1, plan0 ''b'' 2, plan0 ''c'' 3, plan0 ''d'' 4, plan0 ''e'' 5])))
     = Some (plan0 ''c'' 9)"
  using saveMealPlan_history [of "plan0 ''c'' 9"
      "Map.empty(MEAL_PLAN_HISTORY \<mapsto>
         VPlanHistory [plan0 ''a'' 1, plan0 ''b'' 2, plan0 ''c'' 3, plan0 ''d'' 4, plan0 ''e'' 5])"]
  by (simp add: planHistoryOf_def plan0_def)

section \<open>The getProgress tool is read-only: proofs\<close>

lemma snd_getProfile: "snd (getProfile s) = s"
  by (simp add: getProfile_def storageGet_def)

lemma snd_readDaily: "snd (readDaily date s) = s"
  by (simp add: readDaily_def storageGet_def)

lemma snd_readDailies: "snd (readDailies dates s) = s"
proof (induction dates arbitrary: s)
  case Nil
  show ?case by simp
next
  case (Cons date dates)
  show ?case
    by (simp add: split_beta snd_readDaily Cons.IH)
qed

lemma snd_getDailyMacros: "snd (getDailyMacros date s) = s"
  using snd_readDaily [of date s]
  by (simp add: getDailyMacros_def split_beta split: option.split)

lemma snd_getMealHistory: "snd (getMealHistory limit s) = s"
  by (simp add: getMealHistory_def storageGet_def split_beta Let_def snd_readDailies)

lemma toDateString_valid:
  assumes "\<bar>t\<bar> \<le> 8640000000000000"
  shows "\<exists>date. toDateString (newDate t) = Inr date"
  using assms
  by (simp add: toDateString_def toISOString_def newDate_def)

text \<open>
  Claim C3. The getProgress tool is read-only: for every store, every clock reading and
  every input (valid or not, inside an agent context or not) the store after the call is
  the store before it. And the call does return its text when it runs inside an agent
  context with a valid \<open>days\<close> (absent, or an integer from 1 to 30).
\<close>

theorem getProgress_read_only:
  "snd (getProgress str agent now input s) = s
   \<and> (agent \<and> \<bar>now\<bar> \<le> 8640000000000000 \<and>
        (input = None \<or> (\<exists>n. input = Some (of_int n) \<and> 1 \<le> n \<and> n \<le> 30))
      \<longrightarrow> (\<exists>text. fst (getProgress str agent now input s) = Inr text))"
proof (intro conjI impI)
  show "snd (getProgress str agent now input s) = s"
    by (simp add: getProgress_def split_beta snd_getProfile snd_getDailyMacros snd_getMealHistory
        split: sum.split)
next
  assume a: "agent \<and> \<bar>now\<bar> \<le> 8640000000000000 \<and>
        (input = None \<or> (\<exists>n. input = Some (of_int n) \<and> 1 \<le> n \<and> n \<le> 30))"
  then obtain date where d: "toDateString (newDate now) = Inr date"
    using toDateString_valid by blast
  from a have "\<exists>days. progressDays input = Inr days"
    by (auto simp: progressDays_def)
  then obtain days where p: "progressDays input = Inr days" ..
  show "\<exists>text. fst (getProgress str agent now input s) = Inr text"
    using a d p by (simp add: getProgress_def split_beta)
qed

theorem getProgress_read_only_witness:
  "snd (getProgress (\<lambda>x. ''n'') True 1760367600000 (Some 3)
          (Map.empty(MEAL_DATES \<mapsto> VDates [''2025-10-13'']))) =
     Map.empty(MEAL_DATES \<mapsto> VDates [''2025-10-13''])
   \<and> (\<exists>text. fst (getProgress (\<lambda>x. ''n'') True 1760367600000 (Some 3)
          (Map.empty(MEAL_DATES \<mapsto> VDates [''2025-10-13'']))) = Inr text)"
proof -
  have "\<exists>n::int. (3::real) = of_int n \<and> 1 \<le> n \<and> n \<le> 30"
    by (rule exI [of _ 3]) simp
  then have h: "True \<and> \<bar>1760367600000::int\<bar> \<le> 8640000000000000 \<and>
        (Some (3::real) = None \<or> (\<exists>n. Some (3::real) = Some (of_int n) \<and> 1 \<le> n \<and> n \<le> 30))"
    by simp
  show ?thesis
    using getProgress_read_only [of "\<lambda>x. ''n''" True 1760367600000 "Some 3"
        "Map.empty(MEAL_DATES \<mapsto> VDates [''2025-10-13''])"] h
    by blast
qed

section \<open>Model fallback: proofs\<close>

lemma startsWith_iff: "startsWith str sub \<longleftrightarrow> (\<exists>q. str = sub @ q)"
  by (induction str sub rule: startsWith.induct) auto

lemma str_includes_iff: "str_includes str sub \<longleftrightarrow> (\<exists>p q. str = p @ sub @ q)"
proof (induction str)
  case Nil
  show ?case by auto
next
  case (Cons d ds)
  show ?case
  proof
    assume "str_includes (d # ds) sub"
    then consider "startsWith (d # ds) sub" | "str_includes ds sub" by auto
    then show "\<exists>p q. d # ds = p @ sub @ q"
    proof cases
      case 1
      then obtain q where "d # ds = sub @ q" using startsWith_iff by blast
      then have "d # ds = [] @ sub @ q" by simp
      then show ?thesis by blast
    next
      case 2
      then obtain p q where "ds = p @ sub @ q" using Cons.IH by blast
      then have "d # ds = (d # p) @ sub @ q" by simp
      then show ?thesis by blast
    qed
  next
    assume "\<exists>p q. d # ds = p @ sub @ q"
    then obtain p q where pq: "d # ds = p @ sub @ q" by blast
    show "str_includes (d # ds) sub"
    proof (cases p)
      case Nil
      then have "startsWith (d # ds) sub" using pq startsWith_iff by auto
      then show ?thesis by simp
    next
      case (Cons c p')
      then have "ds = p' @ sub @ q" using pq by simp
      then have "str_includes ds sub" using Cons.IH by blast
      then show ?thesis by simp
    qed
  qed
qed

lemma isRecoverableModelError_iff:
  "isRecoverableModelError (ErrorInstance name message) \<longleftrightarrow>
     (\<exists>p q. message = p @ ''No such model'' @ q) \<or> (\<exists>p q. message = p @ ''5007'' @ q) \<or>
     name = ''InferenceUpstreamError''"
  by (simp only: isRecoverableModelError_def Let_def str_includes_iff thrownMessage.simps
      thrownName.simps)

lemma isRecoverableModelError_NonError: "\<not> isRecoverableModelError NonError"
  by (simp add: isRecoverableModelError_def)

text \<open>
  The classification at sample failures: by the message, by the name, and neither; the
  name is not looked for in the message, nor the markers in the name.
\<close>

lemma isRecoverableModelError_values:
  "isRecoverableModelError (ErrorInstance ''Error'' ''No such model: gpt-4o-mini'')"
  "isRecoverableModelError (ErrorInstance ''Error'' ''upstream 5007 failed'')"
  "isRecoverableModelError (ErrorInstance ''InferenceUpstreamError'' ''boom'')"
  "\<not> isRecoverableModelError (ErrorInstance ''TypeError'' ''timeout'')"
  "\<not> isRecoverableModelError (ErrorInstance ''Error'' ''InferenceUpstreamError'')"
  "\<not> isRecoverableModelError (ErrorInstance ''No such model'' ''boom'')"
  "\<not> isRecoverableModelError (ErrorInstance ''5007'' ''no such model'')"
  by (simp_all add: isRecoverableModelError_def)

lemma resolveModel_eq:
  "resolveModel envKey processKey =
     (if truthy envKey \<or> truthy processKey
      then Some (ResolvedModel ''openai:gpt-4o-mini'' True None) else None)"
  by (simp add: resolveModel_def Let_def)

lemma retries_generateReply: "retries (fst (generateReply envKey processKey sync backend)) = []"
  by (simp add: generateReply_def resolveModel_eq generateWithFallback_def backendStream_def
      retries_def split: option.split)

text \<open>
  Claim C6, the code against it. The classification is the one claimed: an \<^verbatim>\<open>Error\<close> is
  recoverable exactly when its message contains "No such model" or "5007" or its name is
  "InferenceUpstreamError", and a thrown value that is not an \<^verbatim>\<open>Error\<close> is not. But the
  retry claimed for a recoverable failure is never made. The model \<^verbatim>\<open>resolveModel\<close> returns
  has no fallback, whatever the keys, so that no reply has a retry. And a failure of the
  generation does not reach the \<^verbatim>\<open>catch\<close>: whenever the call of \<^verbatim>\<open>runModel\<close> returns, the
  failure of the backend is left in the stream, with no retry and no text streamed, also
  for a model that has a fallback and a failure that is recoverable. The \<^verbatim>\<open>catch\<close> does
  what the claim says for what \<^verbatim>\<open>runModel\<close> throws while it runs: a recoverable failure
  with a fallback is followed by exactly one more call, on the fallback, and by no text;
  any other, and any failure without a fallback, by no further call and by the one fixed
  text. With a key configured and a backend that fails the generation, the reply is the
  one call of \<^verbatim>\<open>runModel\<close> and the failure in the stream.
\<close>

theorem fallback_never_retried:
  "(isRecoverableModelError (ErrorInstance name message) \<longleftrightarrow>
      (\<exists>p q. message = p @ ''No such model'' @ q) \<or> (\<exists>p q. message = p @ ''5007'' @ q) \<or>
      name = ''InferenceUpstreamError'')
   \<and> \<not> isRecoverableModelError NonError
   \<and> resolveModel envKey processKey =
       (if truthy envKey \<or> truthy processKey
        then Some (ResolvedModel ''openai:gpt-4o-mini'' True None) else None)
   \<and> retries (fst (generateReply envKey processKey sync backend)) = []
   \<and> (sync 0 m = None \<longrightarrow>
        generateWithFallback sync backend m = (RunModel m # backendStream backend m, None)
        \<and> retries (fst (generateWithFallback sync backend m)) = []
        \<and> streamed (fst (generateWithFallback sync backend m)) = [])
   \<and> (sync 0 m = Some e \<and> isRecoverableModelError e \<and> fallback m = Some fb \<longrightarrow>
        take 2 (fst (generateWithFallback sync backend m)) = [RunModel m, RunModel fb]
        \<and> retries (fst (generateWithFallback sync backend m)) = [RunModel fb]
        \<and> streamed (fst (generateWithFallback sync backend m)) = []
        \<and> snd (generateWithFallback sync backend m) = sync 1 fb)
   \<and> (sync 0 m = Some e \<and> (\<not> isRecoverableModelError e \<or> fallback m = None) \<longrightarrow>
        fst (generateWithFallback sync backend m) = [RunModel m, StreamPlainText GENERATION_FAILED]
        \<and> retries (fst (generateWithFallback sync backend m)) = []
        \<and> streamed (fst (generateWithFallback sync backend m)) = [StreamPlainText GENERATION_FAILED]
        \<and> snd (generateWithFallback sync backend m) = None)
   \<and> ((truthy envKey \<or> truthy processKey) \<and> sync 0 openaiModel = None
       \<and> backend openaiModel = Some e \<longrightarrow>
        generateReply envKey processKey sync backend = ([RunModel openaiModel, StreamFailure e], None))"
proof (intro conjI)
  show "isRecoverableModelError (ErrorInstance name message) \<longleftrightarrow>
      (\<exists>p q. message = p @ ''No such model'' @ q) \<or> (\<exists>p q. message = p @ ''5007'' @ q) \<or>
      name = ''InferenceUpstreamError''"
    by (rule isRecoverableModelError_iff)
  show "\<not> isRecoverableModelError NonError"
    by (rule isRecoverableModelError_NonError)
  show "resolveModel envKey processKey =
       (if truthy envKey \<or> truthy processKey
        then Some (ResolvedModel ''openai:gpt-4o-mini'' True None) else None)"
    by (rule resolveModel_eq)
  show "retries (fst (generateReply envKey processKey sync backend)) = []"
    by (rule retries_generateReply)
  show "sync 0 m = None \<longrightarrow>
        generateWithFallback sync backend m = (RunModel m # backendStream backend m, None)
        \<and> retries (fst (generateWithFallback sync backend m)) = []
        \<and> streamed (fst (generateWithFallback sync backend m)) = []"
    by (simp add: generateWithFallback_def backendStream_def retries_def streamed_def
        split: option.split)
  show "sync 0 m = Some e \<and> isRecoverableModelError e \<and> fallback m = Some fb \<longrightarrow>
        take 2 (fst (generateWithFallback sync backend m)) = [RunModel m, RunModel fb]
        \<and> retries (fst (generateWithFallback sync backend m)) = [RunModel fb]
        \<and> streamed (fst (generateWithFallback sync backend m)) = []
        \<and> snd (generateWithFallback sync backend m) = sync 1 fb"
    by (simp add: generateWithFallback_def backendStream_def retries_def streamed_def
        split: option.split)
  show "sync 0 m = Some e \<and> (\<not> isRecoverableModelError e \<or> fallback m = None) \<longrightarrow>
        fst (generateWithFallback sync backend m) = [RunModel m, StreamPlainText GENERATION_FAILED]
        \<and> retries (fst (generateWithFallback sync backend m)) = []
        \<and> streamed (fst (generateWithFallback sync backend m)) = [StreamPlainText GENERATION_FAILED]
        \<and> snd (generateWithFallback sync backend m) = None"
    by (auto simp: generateWithFallback_def retries_def streamed_def split: option.split)
  show "(truthy envKey \<or> truthy processKey) \<and> sync 0 openaiModel = None
       \<and> backend openaiModel = Some e \<longrightarrow>
        generateReply envKey processKey sync backend = ([RunModel openaiModel, StreamFailure e], None)"
    by (simp add: generateReply_def resolveModel_eq generateWithFallback_def backendStream_def
        openaiModel_def)
qed

theorem fallback_never_retried_witness:
  "isRecoverableModelError noSuchModel
   \<and> resolveModel (Some ''sk-test'') None = Some openaiModel
   \<and> fallback openaiModel = None
   \<and> generateReply (Some ''sk-test'') None neverThrows (backendFails noSuchModel) =
       ([RunModel openaiModel, StreamFailure noSuchModel], None)
   \<and> retries (fst (generateReply (Some ''sk-test'') None neverThrows (backendFails noSuchModel))) = []
   \<and> streamed (fst (generateReply (Some ''sk-test'') None neverThrows (backendFails noSuchModel))) = []
   \<and> generateWithFallback neverThrows (backendFails noSuchModel) primaryModel =
       ([RunModel primaryModel, StreamFailure noSuchModel], None)
   \<and> generateWithFallback (throwsFirst noSuchModel) backendWorks primaryModel =
       ([RunModel primaryModel, RunModel backupModel], None)
   \<and> generateWithFallback (throwsFirst noSuchModel) backendWorks openaiModel =
       ([RunModel openaiModel, StreamPlainText GENERATION_FAILED], None)
   \<and> generateWithFallback (throwsFirst (ErrorInstance ''TypeError'' ''timeout'')) backendWorks
        primaryModel =
       ([RunModel primaryModel, StreamPlainText GENERATION_FAILED], None)"
proof -
  let ?key = "Some ''sk-test''"
  have k: "truthy ?key \<or> truthy None"
    by (simp add: truthy_def)
  have rec: "isRecoverableModelError noSuchModel"
    by (simp add: noSuchModel_def isRecoverableModelError_values)
  have nrec: "\<not> isRecoverableModelError (ErrorInstance ''TypeError'' ''timeout'')"
    by (simp add: isRecoverableModelError_values)
  have fb: "fallback openaiModel = None" "fallback primaryModel = Some backupModel"
    by (simp_all add: openaiModel_def primaryModel_def)
  note th = fallback_never_retried [where envKey = ?key and processKey = None
      and sync = neverThrows and backend = "backendFails noSuchModel" and e = noSuchModel]
  have r: "resolveModel ?key None = Some openaiModel"
    using th [where m = openaiModel, THEN conjunct2, THEN conjunct2, THEN conjunct1] k
    by (simp add: openaiModel_def)
  have g: "generateReply ?key None neverThrows (backendFails noSuchModel) =
       ([RunModel openaiModel, StreamFailure noSuchModel], None)"
    using th [where m = openaiModel] k by (simp add: neverThrows_def backendFails_def)
  have p: "generateWithFallback neverThrows (backendFails noSuchModel) primaryModel =
       ([RunModel primaryModel, StreamFailure noSuchModel], None)"
    using th [where m = primaryModel]
    by (simp add: neverThrows_def backendFails_def backendStream_def)
  have t1: "generateWithFallback (throwsFirst noSuchModel) backendWorks primaryModel =
       ([RunModel primaryModel, RunModel backupModel], None)"
    using fallback_never_retried [where sync = "throwsFirst noSuchModel" and backend = backendWorks
        and m = primaryModel and e = noSuchModel and fb = backupModel] rec fb
    by (simp add: throwsFirst_def generateWithFallback_def backendWorks_def backendStream_def)
  have t2: "generateWithFallback (throwsFirst noSuchModel) backendWorks openaiModel =
       ([RunModel openaiModel, StreamPlainText GENERATION_FAILED], None)"
    using fallback_never_retried [where sync = "throwsFirst noSuchModel" and backend = backendWorks
        and m = openaiModel and e = noSuchModel] fb
    by (cases "generateWithFallback (throwsFirst noSuchModel) backendWorks openaiModel")
       (simp add: throwsFirst_def)
  have t3: "generateWithFallback (throwsFirst (ErrorInstance ''TypeError'' ''timeout'')) backendWorks
        primaryModel = ([RunModel primaryModel, StreamPlainText GENERATION_FAILED], None)"
    using fallback_never_retried [where sync = "throwsFirst (ErrorInstance ''TypeError'' ''timeout'')"
        and backend = backendWorks and m = primaryModel
        and e = "ErrorInstance ''TypeError'' ''timeout''"] nrec
    by (cases "generateWithFallback (throwsFirst (ErrorInstance ''TypeError'' ''timeout''))
          backendWorks primaryModel")
       (simp add: throwsFirst_def)
  show ?thesis
    using rec r fb(1) g p t1 t2 t3 by (simp add: retries_def streamed_def)
qed

section \<open>The workflow trigger endpoint: proofs\<close>

lemma hasProperty_object:
  "hasProperty key body \<Longrightarrow> \<not> falsy body \<and> typeofObject body"
  by (cases body) simp_all

lemma wellformed_hasProperty:
  "\<not> malformedPayload body \<Longrightarrow> hasProperty ''type'' body"
  by (cases body) (auto simp: malformedPayload_def split: option.splits json.splits)

text \<open>
  Claim C9 as stated fails: the payload \<^verbatim>\<open>{"type": "bogus"}\<close> is malformed in the
  specification's sense (its tag is none of the three), and the endpoint hands it to the
  scheduler and answers 202.
\<close>

theorem trigger_unknown_tag_counterexample:
  "malformedPayload (JObject [(''type'', JString ''bogus'')])
   \<and> triggerWorkflow acceptingScheduler (Some (JObject [(''type'', JString ''bogus'')])) =
       (\<lparr>rs_status = 202,
         rs_body = JObject [(''workflowId'', JString ''wf_test''), (''status'', JString ''queued'')]\<rparr>,
        [JObject [(''type'', JString ''bogus'')]])"
  by (simp add: malformedPayload_def knownTags_def triggerWorkflow_def acceptingScheduler_def)

text \<open>
  Claim C9, amended. The endpoint answers 400 and hands nothing to the scheduler when the
  body cannot be parsed, is falsy, is not an object, or has no \<^verbatim>\<open>type\<close> property. A body that
  is an object with a \<^verbatim>\<open>type\<close> property, whatever its value, is handed to the scheduler
  once, and the answer is 202 with the identifier of the instance when the scheduler
  returns one (400 when the scheduler throws). Every payload whose \<^verbatim>\<open>type\<close> is one of the
  three known tags is such a body.
\<close>

theorem trigger_workflow_type_presence:
  "(parsed = None \<or>
      (\<exists>body. parsed = Some body \<and> (falsy body \<or> \<not> typeofObject body \<or> \<not> hasProperty ''type'' body))
     \<longrightarrow> rs_status (fst (triggerWorkflow create parsed)) = 400
         \<and> snd (triggerWorkflow create parsed) = [])
   \<and> (hasProperty ''type'' body
     \<longrightarrow> snd (triggerWorkflow create (Some body)) = [body]
         \<and> (create body = Some instanceId
              \<longrightarrow> fst (triggerWorkflow create (Some body)) =
                    \<lparr>rs_status = 202,
                      rs_body = JObject [(''workflowId'', JString instanceId),
                                         (''status'', JString ''queued'')]\<rparr>)
         \<and> (create body = None
              \<longrightarrow> rs_status (fst (triggerWorkflow create (Some body))) = 400))
   \<and> (\<not> malformedPayload body \<longrightarrow> hasProperty ''type'' body)"
proof (intro conjI impI)
  assume "parsed = None \<or>
      (\<exists>body. parsed = Some body \<and> (falsy body \<or> \<not> typeofObject body \<or> \<not> hasProperty ''type'' body))"
  then show "rs_status (fst (triggerWorkflow create parsed)) = 400"
    by (auto simp: triggerWorkflow_def errorResponse_def)
next
  assume "parsed = None \<or>
      (\<exists>body. parsed = Some body \<and> (falsy body \<or> \<not> typeofObject body \<or> \<not> hasProperty ''type'' body))"
  then show "snd (triggerWorkflow create parsed) = []"
    by (auto simp: triggerWorkflow_def errorResponse_def)
next
  assume "hasProperty ''type'' body"
  then show "snd (triggerWorkflow create (Some body)) = [body]"
    using hasProperty_object [of "''type''" body]
    by (simp add: triggerWorkflow_def split: option.split)
next
  assume "hasProperty ''type'' body" and "create body = Some instanceId"
  then show "fst (triggerWorkflow create (Some body)) =
                    \<lparr>rs_status = 202,
                      rs_body = JObject [(''workflowId'', JString instanceId),
                                         (''status'', JString ''queued'')]\<rparr>"
    using hasProperty_object [of "''type''" body]
    by (simp add: triggerWorkflow_def)
next
  assume "hasProperty ''type'' body" and "create body = None"
  then show "rs_status (fst (triggerWorkflow create (Some body))) = 400"
    using hasProperty_object [of "''type''" body]
    by (simp add: triggerWorkflow_def errorResponse_def)
next
  assume "\<not> malformedPayload body"
  then show "hasProperty ''type'' body"
    by (rule wellformed_hasProperty)
qed

theorem trigger_workflow_type_presence_witness:
  "rs_status (fst (triggerWorkflow acceptingScheduler (Some (JObject [(''userId'', JString ''u'')])))) = 400
   \<and> snd (triggerWorkflow acceptingScheduler (Some (JObject [(''userId'', JString ''u'')]))) = []
   \<and> triggerWorkflow acceptingScheduler (Some dailyCheckPayload) =
       (\<lparr>rs_status = 202,
         rs_body = JObject [(''workflowId'', JString ''wf_test''), (''status'', JString ''queued'')]\<rparr>,
        [dailyCheckPayload])
   \<and> rs_status (fst (triggerWorkflow failingScheduler (Some dailyCheckPayload))) = 400"
proof -
  let ?bad = "JObject [(''userId'', JString ''u'')]"
  have h1: "Some ?bad = None \<or>
      (\<exists>body. Some ?bad = Some body \<and> (falsy body \<or> \<not> typeofObject body \<or> \<not> hasProperty ''type'' body))"
    by simp
  have c1: "rs_status (fst (triggerWorkflow acceptingScheduler (Some ?bad))) = 400 \<and>
            snd (triggerWorkflow acceptingScheduler (Some ?bad)) = []"
    using trigger_workflow_type_presence [of "Some ?bad" acceptingScheduler] h1 by blast
  have wf: "\<not> malformedPayload dailyCheckPayload"
    by (simp add: malformedPayload_def knownTags_def dailyCheckPayload_def)
  have h2: "hasProperty ''type'' dailyCheckPayload"
    using trigger_workflow_type_presence [of _ _ dailyCheckPayload] wf by blast
  have a: "acceptingScheduler dailyCheckPayload = Some ''wf_test''"
    by (simp add: acceptingScheduler_def)
  have f: "failingScheduler dailyCheckPayload = None"
    by (simp add: failingScheduler_def)
  have c2: "snd (triggerWorkflow acceptingScheduler (Some dailyCheckPayload)) = [dailyCheckPayload] \<and>
            fst (triggerWorkflow acceptingScheduler (Some dailyCheckPayload)) =
              \<lparr>rs_status = 202,
                rs_body = JObject [(''workflowId'', JString ''wf_test''), (''status'', JString ''queued'')]\<rparr>"
    using trigger_workflow_type_presence [of _ acceptingScheduler dailyCheckPayload "''wf_test''"] h2 a
    by blast
  have c3: "rs_status (fst (triggerWorkflow failingScheduler (Some dailyCheckPayload))) = 400"
    using trigger_workflow_type_presence [of _ failingScheduler dailyCheckPayload] h2 f by blast
  show ?thesis
    using c1 c2 c3 by (simp add: prod_eq_iff)
qed

section \<open>The saveShoppingList tool: proofs\<close>











section \<open>Profile update: proofs\<close>

lemma spread_given: "spread old (given new) = (case new of Some v \<Rightarrow> Some v | None \<Rightarrow> old)"
  by (cases new) simp_all

text \<open>
  What the updateProfile tool stores, for a valid input inside an agent context: every
  field but \<^verbatim>\<open>macroTargets\<close> is the supplied value or else the stored one; \<^verbatim>\<open>macroTargets\<close>
  is what the input gives, with 0 for each quantity left out, and is erased when the input
  has no \<^verbatim>\<open>macroTargets\<close>.
\<close>

lemma updateProfile_stores:
  assumes "profileUpdateSchema input"
  shows "profileOf (snd (updateProfile True now input s)) =
     Some (let existing = (case profileOf s of Some p \<Rightarrow> p | None \<Rightarrow> emptyProfile) in
       \<lparr>up_id = up_id existing,
        up_name = (case pu_name input of Some v \<Rightarrow> Some v | None \<Rightarrow> up_name existing),
        up_goalType = (case pu_goalType input of Some v \<Rightarrow> Some v | None \<Rightarrow> up_goalType existing),
        up_weight = (case pu_weight input of Some v \<Rightarrow> Some v | None \<Rightarrow> up_weight existing),
        up_targetWeight =
          (case pu_targetWeight input of Some v \<Rightarrow> Some v | None \<Rightarrow> up_targetWeight existing),
        up_heightInches =
          (case pu_heightInches input of Some v \<Rightarrow> Some v | None \<Rightarrow> up_heightInches existing),
        up_age = (case pu_age input of Some v \<Rightarrow> Some v | None \<Rightarrow> up_age existing),
        up_sex = (case pu_sex input of Some v \<Rightarrow> Some v | None \<Rightarrow> up_sex existing),
        up_activityLevel =
          (case pu_activityLevel input of Some v \<Rightarrow> Some v | None \<Rightarrow> up_activityLevel existing),
        up_macroTargets =
          (case pu_macroTargets input of
             Some m \<Rightarrow> Some \<lparr>protein = orZero (pm_protein m), carbs = orZero (pm_carbs m),
                              fat = orZero (pm_fat m), calories = orZero (pm_calories m)\<rparr>
           | None \<Rightarrow> None),
        up_restrictions =
          (case pu_restrictions input of Some v \<Rightarrow> Some v | None \<Rightarrow> up_restrictions existing),
        up_preferences =
          (case pu_preferences input of Some v \<Rightarrow> Some v | None \<Rightarrow> up_preferences existing),
        up_timezone = (case pu_timezone input of Some v \<Rightarrow> Some v | None \<Rightarrow> up_timezone existing),
        up_updatedAt = Some now\<rparr>)"
proof -
  have m: "spread old (pa_macroTargets (updateProfileArg input)) =
          (case pu_macroTargets input of
             Some m \<Rightarrow> Some \<lparr>protein = orZero (pm_protein m), carbs = orZero (pm_carbs m),
                              fat = orZero (pm_fat m), calories = orZero (pm_calories m)\<rparr>
           | None \<Rightarrow> None)" for old
    by (cases "pu_macroTargets input") (simp_all add: updateProfileArg_def)
  have a: "pa_id (updateProfileArg input) = Absent"
    "pa_name (updateProfileArg input) = given (pu_name input)"
    "pa_goalType (updateProfileArg input) = given (pu_goalType input)"
    "pa_weight (updateProfileArg input) = given (pu_weight input)"
    "pa_targetWeight (updateProfileArg input) = given (pu_targetWeight input)"
    "pa_heightInches (updateProfileArg input) = given (pu_heightInches input)"
    "pa_age (updateProfileArg input) = given (pu_age input)"
    "pa_sex (updateProfileArg input) = given (pu_sex input)"
    "pa_activityLevel (updateProfileArg input) = given (pu_activityLevel input)"
    "pa_restrictions (updateProfileArg input) = given (pu_restrictions input)"
    "pa_preferences (updateProfileArg input) = given (pu_preferences input)"
    "pa_timezone (updateProfileArg input) = given (pu_timezone input)"
    by (simp_all add: updateProfileArg_def)
  show ?thesis
    using assms
    by (simp add: updateProfile_def setProfile_def getProfile_def storageGet_def storagePut_def
        profileOf_def Let_def m a spread_given)
qed

text \<open>
  Claim C7, where the code departs from it. The stored profile has the macro targets
  180 / 250 / 70 / 2500. An update that supplies only \<^verbatim>\<open>macroTargets.protein = 200\<close> stores
  the targets 200 / 0 / 0 / 0: the three quantities left out do not keep their values. An
  update that supplies only \<^verbatim>\<open>weight = 185\<close> stores the new weight and no macro targets
  at all: the field absent from the update does not keep its value.
\<close>

theorem updateProfile_macroTargets_not_kept:
  "profileOf (snd (updateProfile True 1000
       (noUpdate\<lparr>pu_macroTargets :=
          Some \<lparr>pm_protein = Some 200, pm_carbs = None, pm_fat = None, pm_calories = None\<rparr>\<rparr>)
       profileStore)) =
     Some (sampleProfile\<lparr>up_macroTargets := Some \<lparr>protein = 200, carbs = 0, fat = 0, calories = 0\<rparr>,
                         up_updatedAt := Some 1000\<rparr>)
   \<and> profileOf (snd (updateProfile True 1000 (noUpdate\<lparr>pu_weight := Some 185\<rparr>) profileStore)) =
     Some (sampleProfile\<lparr>up_weight := Some 185, up_macroTargets := None,
                         up_updatedAt := Some 1000\<rparr>)"
proof -
  have v1: "profileUpdateSchema (noUpdate\<lparr>pu_macroTargets :=
          Some \<lparr>pm_protein = Some 200, pm_carbs = None, pm_fat = None, pm_calories = None\<rparr>\<rparr>)"
    by (simp add: profileUpdateSchema_def noUpdate_def)
  have v2: "profileUpdateSchema (noUpdate\<lparr>pu_weight := Some 185\<rparr>)"
    by (simp add: profileUpdateSchema_def noUpdate_def)
  have p: "profileOf profileStore = Some sampleProfile"
    by (simp add: profileOf_def profileStore_def)
  show ?thesis
    by (simp add: updateProfile_stores [OF v1] updateProfile_stores [OF v2] p Let_def)
       (simp add: noUpdate_def sampleProfile_def emptyProfile_def)
qed

section \<open>Dates: the calendar\<close>

lemma div_bounds:
  fixes x n :: int
  assumes "0 < n"
  shows "n * (x div n) \<le> x" and "x < n * (x div n) + n"
  using mult_div_mod_eq [of n x] pos_mod_sign [OF assms, of x] pos_mod_bound [OF assms, of x]
  by linarith+

lemma div_succ:
  fixes u n :: int
  assumes "0 < n"
  shows "(u + 1) div n = u div n + (if (u + 1) mod n = 0 then 1 else 0)"
proof -
  define q where "q = (u + 1) div n"
  define r where "r = (u + 1) mod n"
  have e: "u + 1 = n * q + r" and r: "0 \<le> r" "r < n"
    using assms by (simp_all add: q_def r_def)
  show ?thesis
  proof (cases "r = 0")
    case True
    have "u = n * (q - 1) + (n - 1)"
      using e True by (simp add: algebra_simps)
    then have "u div n = q - 1"
      using assms by (intro int_div_pos_eq [where r = "n - 1"]) simp_all
    then show ?thesis
      using True by (simp add: q_def r_def)
  next
    case False
    have "u = n * q + (r - 1)"
      using e by simp
    then have "u div n = q"
      using r False by (intro int_div_pos_eq [where r = "r - 1"]) simp_all
    then show ?thesis
      using False by (simp add: q_def r_def)
  qed
qed

lemma mod_shift: "(y - n * k) mod n = (y :: int) mod n"
  using mod_mult_self2 [of y n "- k"] by simp

lemma leap4: "(y + 1 - 1969) div 4 = (y - 1969) div 4 + (if (y :: int) mod 4 = 0 then 1 else 0)"
  using div_succ [of 4 "y - 1969"] mod_shift [of y 4 492] by (simp add: algebra_simps)

lemma leap100:
  "(y + 1 - 1901) div 100 = (y - 1901) div 100 + (if (y :: int) mod 100 = 0 then 1 else 0)"
  using div_succ [of 100 "y - 1901"] mod_shift [of y 100 19] by (simp add: algebra_simps)

lemma leap400:
  "(y + 1 - 1601) div 400 = (y - 1601) div 400 + (if (y :: int) mod 400 = 0 then 1 else 0)"
  using div_succ [of 400 "y - 1601"] mod_shift [of y 400 4] by (simp add: algebra_simps)

lemma mod_4_100:
  assumes "(y :: int) mod 100 = 0"
  shows "y mod 4 = 0"
proof -
  have "(100::int) dvd y" using assms by (simp add: mod_eq_0_iff_dvd)
  moreover have "(4::int) dvd 100" by simp
  ultimately have "(4::int) dvd y" by (meson dvd_trans)
  then show ?thesis by (simp add: mod_eq_0_iff_dvd)
qed

lemma mod_100_400:
  assumes "(y :: int) mod 400 = 0"
  shows "y mod 100 = 0"
proof -
  have "(400::int) dvd y" using assms by (simp add: mod_eq_0_iff_dvd)
  moreover have "(100::int) dvd 400" by simp
  ultimately have "(100::int) dvd y" by (meson dvd_trans)
  then show ?thesis by (simp add: mod_eq_0_iff_dvd)
qed

text \<open>A year has as many days as the leap-year rule says.\<close>

lemma DayFromYear_Suc: "DayFromYear (y + 1) = DayFromYear y + DaysInYear y"
  using mod_4_100 [of y] mod_100_400 [of y]
  unfolding DayFromYear_def DaysInYear_def leap4 leap100 leap400
  by auto

lemma DaysInYear_bounds: "365 \<le> DaysInYear y" "DaysInYear y \<le> 366"
  by (simp_all add: DaysInYear_def)

lemma DayFromYear_mono_nat: "DayFromYear y \<le> DayFromYear (y + int n)"
proof (induction n)
  case 0
  show ?case by simp
next
  case (Suc n)
  have "DayFromYear (y + int (Suc n)) = DayFromYear (y + int n) + DaysInYear (y + int n)"
    using DayFromYear_Suc [of "y + int n"] by (simp add: algebra_simps)
  then show ?case
    using Suc DaysInYear_bounds(1) [of "y + int n"] by linarith
qed

lemma DayFromYear_mono: "y \<le> y' \<Longrightarrow> DayFromYear y \<le> DayFromYear y'"
  using DayFromYear_mono_nat [of y "nat (y' - y)"] by simp

lemma estimate_low: "DayFromYear (1970 + (400 * z) div 146097 - 1) \<le> z"
proof -
  define k where "k = (400 * z) div 146097"
  define a where "a = (k - 1 + 1) div 4"
  define b where "b = (k - 1 + 69) div 100"
  define c where "c = (k - 1 + 369) div 400"
  have k: "146097 * k \<le> 400 * z"
    unfolding k_def by (rule div_bounds) simp
  have a: "4 * a \<le> k - 1 + 1" unfolding a_def by (rule div_bounds) simp
  have b: "k - 1 + 69 < 100 * b + 100" unfolding b_def by (rule div_bounds) simp
  have c: "400 * c \<le> k - 1 + 369" unfolding c_def by (rule div_bounds) simp
  have "DayFromYear (1970 + k - 1) = 365 * k - 365 + a - b + c"
    by (simp add: DayFromYear_def a_def b_def c_def)
  then show ?thesis
    unfolding k_def [symmetric] using k a b c by linarith
qed

lemma estimate_high: "z < DayFromYear (1970 + (400 * z) div 146097 + 2)"
proof -
  define k where "k = (400 * z) div 146097"
  define a where "a = (k + 2 + 1) div 4"
  define b where "b = (k + 2 + 69) div 100"
  define c where "c = (k + 2 + 369) div 400"
  have k: "400 * z < 146097 * k + 146097"
    unfolding k_def by (rule div_bounds) simp
  have a: "k + 2 + 1 < 4 * a + 4" unfolding a_def by (rule div_bounds) simp
  have b: "100 * b \<le> k + 2 + 69" unfolding b_def by (rule div_bounds) simp
  have c: "k + 2 + 369 < 400 * c + 400" unfolding c_def by (rule div_bounds) simp
  have "DayFromYear (1970 + k + 2) = 365 * k + 730 + a - b + c"
    by (simp add: DayFromYear_def a_def b_def c_def)
  then show ?thesis
    unfolding k_def [symmetric] using k a b c by linarith
qed

text \<open>The year computed is the year of the day: it has begun, and the next has not.\<close>

lemma YearFromTime_day:
  "DayFromYear (YearFromTime t) \<le> Day t \<and> Day t < DayFromYear (YearFromTime t + 1)"
  using estimate_low [of "Day t"] estimate_high [of "Day t"]
  by (auto simp: YearFromTime_def Let_def add.commute)

lemma TimeFromYear_le: "TimeFromYear y \<le> t \<longleftrightarrow> DayFromYear y \<le> Day t"
  using div_bounds [of 86400000 t]
  by (auto simp: TimeFromYear_def Day_def msPerDay_def)

lemma YearFromTime_bounds:
  "TimeFromYear (YearFromTime t) \<le> t \<and> t < TimeFromYear (YearFromTime t + 1)"
  using YearFromTime_day [of t] TimeFromYear_le [of "YearFromTime t" t]
    TimeFromYear_le [of "YearFromTime t + 1" t]
  by auto

lemma YearFromTime_largest:
  assumes "TimeFromYear y \<le> t"
  shows "y \<le> YearFromTime t"
proof (rule ccontr)
  assume "\<not> y \<le> YearFromTime t"
  then have "YearFromTime t + 1 \<le> y" by simp
  then have "DayFromYear (YearFromTime t + 1) \<le> DayFromYear y" by (rule DayFromYear_mono)
  then show False
    using assms YearFromTime_day [of t] TimeFromYear_le [of y t] by linarith
qed

lemma InLeapYear_cases: "InLeapYear t = 0 \<or> InLeapYear t = 1"
  by (simp add: InLeapYear_def)

lemma DaysInYear_InLeapYear: "DaysInYear (YearFromTime t) = 365 + InLeapYear t"
  by (simp add: InLeapYear_def DaysInYear_def)

lemma DayWithinYear_range: "0 \<le> DayWithinYear t \<and> DayWithinYear t < 365 + InLeapYear t"
  using YearFromTime_day [of t] DayFromYear_Suc [of "YearFromTime t"]
    DaysInYear_InLeapYear [of t]
  by (simp add: DayWithinYear_def)

text \<open>
  Month and date number are those of the day within the year: the month is one of the
  twelve, the date is a day of that month, and the days before the month and the date
  add up to the day within the year.
\<close>

lemma MonthFromTime_range: "0 \<le> MonthFromTime t \<and> MonthFromTime t \<le> 11"
  by (simp add: MonthFromTime_def Let_def)

lemma DayWithinYear_eq:
  "DayWithinYear t = daysBeforeMonth (MonthFromTime t) (InLeapYear t) + DateFromTime t - 1"
  by (simp add: DateFromTime_def MonthFromTime_def daysBeforeMonth_def Let_def)

lemma DateFromTime_range:
  "1 \<le> DateFromTime t \<and> DateFromTime t \<le> daysInMonth (MonthFromTime t) (InLeapYear t)"
proof -
  define d where "d = DayWithinYear t"
  define l where "l = InLeapYear t"
  have d: "0 \<le> d" "d < 365 + l"
    using DayWithinYear_range [of t] by (simp_all add: d_def l_def)
  have l: "l = 0 \<or> l = 1"
    using InLeapYear_cases [of t] by (simp add: l_def)
  show ?thesis
    unfolding DateFromTime_def MonthFromTime_def daysInMonth_def Let_def
      d_def [symmetric] l_def [symmetric]
    using d l by auto
qed

text \<open>The years 0 to 9999 are the time values from -62167219200000 to 253402300799999.\<close>

lemma YearFromTime_four_digits:
  assumes "- 62167219200000 \<le> t" and "t \<le> 253402300799999"
  shows "0 \<le> YearFromTime t \<and> YearFromTime t \<le> 9999"
proof -
  have "TimeFromYear 0 \<le> t"
    using assms(1) by (simp add: TimeFromYear_def DayFromYear_def msPerDay_def)
  then have lo: "0 \<le> YearFromTime t"
    by (rule YearFromTime_largest)
  have hi: "YearFromTime t \<le> 9999"
  proof (rule ccontr)
    assume "\<not> YearFromTime t \<le> 9999"
    then have "10000 \<le> YearFromTime t" by simp
    then have "DayFromYear 10000 \<le> DayFromYear (YearFromTime t)" by (rule DayFromYear_mono)
    then have "DayFromYear 10000 \<le> Day t"
      using YearFromTime_day [of t] by linarith
    then have "TimeFromYear 10000 \<le> t"
      by (simp add: TimeFromYear_le)
    then show False
      using assms(2) by (simp add: TimeFromYear_def DayFromYear_def msPerDay_def)
  qed
  show ?thesis using lo hi by simp
qed

text \<open>
  The model of \<^verbatim>\<open>toISOString\<close> at values JavaScript is known for: the epoch and the
  millisecond before it, leap days (2000, 2024) and a century year that has none (2100),
  the first and last instants with a four-digit year, and the two ends of the range of a
  Date.
\<close>

lemma toISOString_known_values:
  "toISOString (newDate 0) = Inr ''1970-01-01T00:00:00.000Z''"
  "toISOString (newDate (- 1)) = Inr ''1969-12-31T23:59:59.999Z''"
  "toISOString (newDate 951782400000) = Inr ''2000-02-29T00:00:00.000Z''"
  "toISOString (newDate 1709164800000) = Inr ''2024-02-29T00:00:00.000Z''"
  "toISOString (newDate 4107542400000) = Inr ''2100-03-01T00:00:00.000Z''"
  "toISOString (newDate (- 2208988800000)) = Inr ''1900-01-01T00:00:00.000Z''"
  "toISOString (newDate 253402300799999) = Inr ''9999-12-31T23:59:59.999Z''"
  "toISOString (newDate 253402300800000) = Inr ''+010000-01-01T00:00:00.000Z''"
  "toISOString (newDate (- 62167219200000)) = Inr ''0000-01-01T00:00:00.000Z''"
  "toISOString (newDate (- 62167219200001)) = Inr ''-000001-12-31T23:59:59.999Z''"
  "toISOString (newDate 8640000000000000) = Inr ''+275760-09-13T00:00:00.000Z''"
  "toISOString (newDate (- 8640000000000000)) = Inr ''-271821-04-20T00:00:00.000Z''"
  "toISOString (newDate 8640000000000001) = Inl RangeError"
  by code_simp+

section \<open>Dates: the date string\<close>

lemma digit_inj:
  assumes "0 \<le> a" "a < 10" "0 \<le> b" "b < 10" "digit a = digit b"
  shows "a = b"
proof -
  have "distinct ''0123456789''" by simp
  moreover have "nat a < length ''0123456789''" "nat b < length ''0123456789''"
    using assms by simp_all
  ultimately have "nat a = nat b"
    using assms(5) unfolding digit_def by (simp only: nth_eq_iff_index_eq)
  then show ?thesis using assms by simp
qed

lemma digit_mod_inj: "digit (a mod 10) = digit (b mod 10) \<Longrightarrow> a mod 10 = b mod 10"
  by (rule digit_inj) simp_all

lemma mod_100_digits: "(n :: int) mod 100 = 10 * (n div 10 mod 10) + n mod 10"
  using zmod_zmult2_eq [where a = n and b = 10 and c = 10] by simp

lemma mod_10000_digits:
  "(n :: int) mod 10000 =
     1000 * (n div 1000 mod 10) + 100 * (n div 100 mod 10) + 10 * (n div 10 mod 10) + n mod 10"
proof -
  have a: "n mod 10000 = 1000 * (n div 1000 mod 10) + n mod 1000"
    using zmod_zmult2_eq [where a = n and b = 1000 and c = 10] by simp
  have b: "n mod 1000 = 100 * (n div 100 mod 10) + n mod 100"
    using zmod_zmult2_eq [where a = n and b = 100 and c = 10] by simp
  show ?thesis
    using a b mod_100_digits [of n] by linarith
qed

lemma pad2_inj:
  assumes "pad2 n = pad2 n'" and "0 \<le> n" "n < 100" "0 \<le> n'" "n' < 100"
  shows "n = n'"
proof -
  have d: "digit (n div 10 mod 10) = digit (n' div 10 mod 10)" "digit (n mod 10) = digit (n' mod 10)"
    using assms(1) by (simp_all add: pad2_def)
  have "n mod 100 = n' mod 100"
    by (simp only: mod_100_digits digit_mod_inj [OF d(1)] digit_mod_inj [OF d(2)])
  then show ?thesis using assms by simp
qed

lemma pad4_inj:
  assumes "pad4 n = pad4 n'" and "0 \<le> n" "n \<le> 9999" "0 \<le> n'" "n' \<le> 9999"
  shows "n = n'"
proof -
  have d: "digit (n div 1000 mod 10) = digit (n' div 1000 mod 10)"
    "digit (n div 100 mod 10) = digit (n' div 100 mod 10)"
    "digit (n div 10 mod 10) = digit (n' div 10 mod 10)"
    "digit (n mod 10) = digit (n' mod 10)"
    using assms(1) by (simp_all add: pad4_def pad3_def pad2_def)
  have "n mod 10000 = n' mod 10000"
    by (simp only: mod_10000_digits digit_mod_inj [OF d(1)] digit_mod_inj [OF d(2)]
        digit_mod_inj [OF d(3)] digit_mod_inj [OF d(4)])
  then show ?thesis using assms by simp
qed

lemma take10_date:
  "take 10 (isoYear y @ ''-'' @ pad2 m @ ''-'' @ pad2 d @ rest) =
   take 10 (isoYear y @ ''-'' @ pad2 m @ ''-'' @ pad2 d)"
  by (simp add: isoYear_def pad6_def pad4_def pad3_def pad2_def)

lemma toDateString_date_part:
  "toDateString (Some t) =
     Inr (take 10 (isoYear (YearFromTime t) @ ''-'' @ pad2 (MonthFromTime t + 1) @ ''-'' @
                   pad2 (DateFromTime t)))"
  unfolding toDateString_def toISOString_def
  by (simp only: option.case sum.case take10_date)

lemma toDateString_four_digits:
  assumes "0 \<le> YearFromTime t" and "YearFromTime t \<le> 9999"
  shows "toDateString (Some t) =
     Inr (pad4 (YearFromTime t) @ ''-'' @ pad2 (MonthFromTime t + 1) @ ''-'' @
          pad2 (DateFromTime t))"
  using assms
  by (simp add: toDateString_date_part isoYear_def pad4_def pad3_def pad2_def)

lemma daysInMonth_le_31: "l \<le> 1 \<Longrightarrow> daysInMonth m l \<le> 31"
  by (simp add: daysInMonth_def)

lemma DateFromTime_le_31: "DateFromTime t \<le> 31"
proof -
  have "InLeapYear t \<le> 1"
    by (simp add: InLeapYear_def)
  then have "daysInMonth (MonthFromTime t) (InLeapYear t) \<le> 31"
    by (rule daysInMonth_le_31)
  then show ?thesis
    using DateFromTime_range [of t] by linarith
qed

text \<open>
  Within the years 0 to 9999 the date string determines the day: two time values with
  the same date string are on the same day.
\<close>

lemma toDateString_same_key:
  assumes y: "0 \<le> YearFromTime t" "YearFromTime t \<le> 9999"
    and y': "0 \<le> YearFromTime t'" "YearFromTime t' \<le> 9999"
    and k: "toDateString (Some t) = toDateString (Some t')"
  shows "Day t = Day t'"
proof -
  have e: "pad4 (YearFromTime t) @ ''-'' @ pad2 (MonthFromTime t + 1) @ ''-'' @
             pad2 (DateFromTime t) =
           pad4 (YearFromTime t') @ ''-'' @ pad2 (MonthFromTime t' + 1) @ ''-'' @
             pad2 (DateFromTime t')"
    using k by (simp only: toDateString_four_digits [OF y] toDateString_four_digits [OF y']
        sum.inject)
  have py: "pad4 (YearFromTime t) = pad4 (YearFromTime t')"
    and pm: "pad2 (MonthFromTime t + 1) = pad2 (MonthFromTime t' + 1)"
    and pd: "pad2 (DateFromTime t) = pad2 (DateFromTime t')"
    using e by (simp_all add: pad4_def pad3_def pad2_def)
  have yy: "YearFromTime t = YearFromTime t'"
    using py y y' by (rule pad4_inj)
  have "MonthFromTime t + 1 = MonthFromTime t' + 1"
    using pm MonthFromTime_range [of t] MonthFromTime_range [of t']
    by (intro pad2_inj) simp_all
  then have mm: "MonthFromTime t = MonthFromTime t'" by simp
  have dd: "DateFromTime t = DateFromTime t'"
    using pd DateFromTime_range [of t] DateFromTime_range [of t']
      DateFromTime_le_31 [of t] DateFromTime_le_31 [of t']
    by (intro pad2_inj) simp_all
  have ll: "InLeapYear t = InLeapYear t'"
    by (simp add: InLeapYear_def yy)
  have "DayWithinYear t = DayWithinYear t'"
    by (simp only: DayWithinYear_eq mm dd ll)
  then show ?thesis
    using yy by (simp add: DayWithinYear_def)
qed

lemma toDateString_same_day:
  assumes "Day t = Day t'"
  shows "toDateString (Some t) = toDateString (Some t')"
proof -
  have y: "YearFromTime t = YearFromTime t'"
    by (simp only: YearFromTime_def assms)
  have l: "InLeapYear t = InLeapYear t'"
    by (simp only: InLeapYear_def y)
  have d: "DayWithinYear t = DayWithinYear t'"
    by (simp only: DayWithinYear_def y assms)
  have m: "MonthFromTime t = MonthFromTime t'"
    by (simp only: MonthFromTime_def d l)
  have "DateFromTime t = DateFromTime t'"
    by (simp only: DateFromTime_def d l m)
  then show ?thesis
    by (simp only: toDateString_date_part y m)
qed

section \<open>JavaScript numbers: proofs\<close>

lemma pow2_powr: "pow2 k = 2 powr (of_int k)"
  by (simp add: pow2_def powr_real_of_int field_simps)


lemma pow2_mono: "k \<le> k' \<Longrightarrow> pow2 k \<le> pow2 k'"
  by (simp add: pow2_powr)



text \<open>The binade of a number between two consecutive powers of two, and of a small number.\<close>

lemma binadeFrom_eq:
  assumes "e \<le> k" and "k \<le> e + int n" and "pow2 k \<le> a" and "a < pow2 (k + 1)"
  shows "binadeFrom n e a = k"
  using assms
proof (induction n arbitrary: e)
  case 0
  then show ?case by simp
next
  case (Suc n)
  show ?case
  proof (cases "e = k")
    case True
    then show ?thesis using Suc.prems by simp
  next
    case False
    then have "e + 1 \<le> k" using Suc.prems by simp
    then have "pow2 (e + 1) \<le> a"
      using pow2_mono [of "e + 1" k] Suc.prems by linarith
    moreover have "binadeFrom n (e + 1) a = k"
      using Suc.prems \<open>e + 1 \<le> k\<close> by (intro Suc.IH) simp_all
    ultimately show ?thesis by simp
  qed
qed

lemma binade_eq:
  assumes "pow2 k \<le> \<bar>x\<bar>" and "\<bar>x\<bar> < pow2 (k + 1)" and "- 1022 \<le> k" and "k \<le> 1023"
  shows "binade x = k"
  unfolding binade_def using assms by (intro binadeFrom_eq) simp_all

lemma binade_subnormal:
  assumes "\<bar>x\<bar> < pow2 (- 1022)"
  shows "binade x = - 1022"
proof -
  have "pow2 (- 1022) \<le> pow2 (- 1022 + 1)"
    by (rule pow2_mono) simp
  then have "\<not> pow2 (- 1022 + 1) \<le> \<bar>x\<bar>"
    using assms by linarith
  then show ?thesis
    unfolding binade_def by (simp add: numeral_eq_Suc del: One_nat_def)
qed

lemma roundDouble_eq:
  assumes "pow2 k \<le> \<bar>x\<bar>" and "\<bar>x\<bar> < pow2 (k + 1)" and "- 1022 \<le> k" and "k \<le> 1023"
  shows "roundDouble x = of_int (roundHalfEven (x / pow2 (k - 52))) * pow2 (k - 52)"
  by (simp add: roundDouble_def binade_eq [OF assms])










text \<open>
  Sums JavaScript is known for: \<^verbatim>\<open>2**53 + 1\<close> is \<^verbatim>\<open>2**53\<close> and \<^verbatim>\<open>2**53 + 2 + 1\<close> is
  \<^verbatim>\<open>2**53 + 4\<close> (ties go to the even significand, down and up), \<^verbatim>\<open>0.5 + 0.25\<close> is exact,
  \<^verbatim>\<open>2**53 + 3\<close> is \<^verbatim>\<open>2**53 + 4\<close> and \<^verbatim>\<open>-(2**53) + -1\<close> is \<^verbatim>\<open>-(2**53)\<close>.
\<close>

lemma jsAdd_known_values:
  "jsAdd (2 ^ 53) 1 = 2 ^ 53"
  "jsAdd (2 ^ 53 + 2) 1 = 2 ^ 53 + 4"
  "jsAdd (1 / 2) (1 / 4) = 3 / 4"
  "jsAdd (2 ^ 53) 3 = 2 ^ 53 + 4"
  "jsAdd (- (2 ^ 53)) (- 1) = - (2 ^ 53)"
proof -
  show "jsAdd (2 ^ 53) 1 = 2 ^ 53"
    unfolding jsAdd_def
    by (subst roundDouble_eq [where k = 53]) (simp_all add: pow2_def roundHalfEven_def)
  show "jsAdd (2 ^ 53 + 2) 1 = 2 ^ 53 + 4"
    unfolding jsAdd_def
    by (subst roundDouble_eq [where k = 53]) (simp_all add: pow2_def roundHalfEven_def)
  show "jsAdd (1 / 2) (1 / 4) = 3 / 4"
    unfolding jsAdd_def
    by (subst roundDouble_eq [where k = "- 1"]) (simp_all add: pow2_def roundHalfEven_def)
  show "jsAdd (2 ^ 53) 3 = 2 ^ 53 + 4"
    unfolding jsAdd_def
    by (subst roundDouble_eq [where k = 53]) (simp_all add: pow2_def roundHalfEven_def)
  show "jsAdd (- (2 ^ 53)) (- 1) = - (2 ^ 53)"
    unfolding jsAdd_def
    by (subst roundDouble_eq [where k = 53]) (simp_all add: pow2_def roundHalfEven_def)
qed

section \<open>Meal logging: one call\<close>

lemma length_isoYear: "4 \<le> length (isoYear y)"
  by (simp add: isoYear_def pad6_def pad4_def pad3_def pad2_def)

lemma toDateString_length:
  assumes "toDateString date = Inr d"
  shows "length d = 10"
proof -
  obtain t where t: "date = Some t"
    using assms by (cases date) (simp_all add: toDateString_def toISOString_def)
  have "4 \<le> length (isoYear (YearFromTime t))" by (rule length_isoYear)
  then show ?thesis
    using assms t
    by (auto simp: toDateString_def toISOString_def pad2_def pad3_def)
qed

lemma getDailyKey_neq_MEAL_DATES:
  assumes "length d = 10"
  shows "getDailyKey d \<noteq> MEAL_DATES" and "MEAL_DATES \<noteq> getDailyKey d"
  using assms by (auto simp: getDailyKey_def MEAL_DAILY_PREFIX_def MEAL_DATES_def)

lemma getDailyKey_inject: "getDailyKey d = getDailyKey d' \<longleftrightarrow> d = d'"
  by (simp add: getDailyKey_def)



lemma updateMealDates_eq:
  "updateMealDates d s =
     s(MEAL_DATES \<mapsto> VDates (take 30 (sortDescending
         (if d \<in> set (datesOf s) then datesOf s else datesOf s @ [d]))))"
  by (cases "asDates (s MEAL_DATES)")
     (simp_all add: updateMealDates_def storageGet_def storagePut_def datesOf_def
        MAX_STORED_MEAL_HISTORY_def Let_def)

text \<open>
  One call of \<^verbatim>\<open>logMeal\<close> whose timestamp has the date \<open>d\<close>: the record written for \<open>d\<close>
  and the new index of dates.
\<close>

lemma logMeal_eq:
  assumes "callDate (now, fresh, meal) = Inr d"
  shows "logMeal now fresh meal s =
     (let meals = sort_key ml_timestamp (mealsOn s d @ [loggedMeal (now, fresh, meal)]);
          updated = \<lparr>dm_date = d, dm_totals = computeTotals meals, dm_meals = meals\<rparr>
      in (Inr updated,
          s(getDailyKey d \<mapsto> VDaily updated,
            MEAL_DATES \<mapsto> VDates (take 30 (sortDescending
               (if d \<in> set (datesOf s) then datesOf s else datesOf s @ [d]))))))"
proof -
  have len: "length d = 10"
    using assms toDateString_length by (simp add: callDate_def)
  have k: "getDailyKey d \<noteq> MEAL_DATES" "MEAL_DATES \<noteq> getDailyKey d"
    using getDailyKey_neq_MEAL_DATES [OF len] by simp_all
  have dates: "datesOf (s(getDailyKey d \<mapsto> v)) = datesOf s" for v
    using k by (simp add: datesOf_def)
  show ?thesis
    using assms
    by (simp add: logMeal_def callDate_def readDaily_def writeDaily_def storageGet_def
        storagePut_def updateMealDates_eq dates mealsOn_def dailyOf_def Let_def
        split: option.split)
qed

lemma logMeal_error:
  assumes "callDate (now, fresh, meal) = Inl e"
  shows "logMeal now fresh meal s = (Inl e, s)"
  using assms by (simp add: logMeal_def callDate_def)

lemma dailyOf_logMeal:
  assumes "callDate (now, fresh, meal) = Inr d"
  shows "dailyOf (snd (logMeal now fresh meal s)) d =
           Some \<lparr>dm_date = d,
                 dm_totals = computeTotals (sort_key ml_timestamp (mealsOn s d @ [loggedMeal (now, fresh, meal)])),
                 dm_meals = sort_key ml_timestamp (mealsOn s d @ [loggedMeal (now, fresh, meal)])\<rparr>"
proof -
  have len: "length d = 10"
    using assms toDateString_length by (simp add: callDate_def)
  have k: "getDailyKey d \<noteq> MEAL_DATES" "MEAL_DATES \<noteq> getDailyKey d"
    using getDailyKey_neq_MEAL_DATES [OF len] by simp_all
  show ?thesis
    using k by (simp add: logMeal_eq [OF assms] Let_def dailyOf_def)
qed

lemma datesOf_logMeal:
  assumes "callDate (now, fresh, meal) = Inr d"
  shows "datesOf (snd (logMeal now fresh meal s)) =
           take 30 (sortDescending (if d \<in> set (datesOf s) then datesOf s else datesOf s @ [d]))"
  by (simp add: logMeal_eq [OF assms] Let_def datesOf_def)

lemma fst_logMeal:
  assumes "callDate (now, fresh, meal) = Inr d"
  shows "fst (logMeal now fresh meal s) =
           Inr \<lparr>dm_date = d,
                dm_totals = computeTotals (sort_key ml_timestamp (mealsOn s d @ [loggedMeal (now, fresh, meal)])),
                dm_meals = sort_key ml_timestamp (mealsOn s d @ [loggedMeal (now, fresh, meal)])\<rparr>"
  by (simp add: logMeal_eq [OF assms] Let_def)

lemma toDateString_20374_15h: "toDateString (newDate 1760367600000) = Inr ''2025-10-13''"
  by code_simp


section \<open>Totals invariant: proofs\<close>

















section \<open>Bounded index of dates: proofs\<close>

lemma isDigit_digit: "isDigit (digit (n mod 10))"
proof -
  have "nat (n mod 10) < length ''0123456789''"
    by simp
  then have "''0123456789'' ! nat (n mod 10) \<in> set ''0123456789''"
    by (rule nth_mem)
  then show ?thesis
    by (simp only: isDigit_def digit_def)
qed

text \<open>The characters of a date string, and the form of the date strings of the years 0 to 9999.\<close>

lemma toDateString_chars:
  assumes "toDateString date = Inr d"
  shows "\<forall>c\<in>set d. isDigit c \<or> c = CHR ''-'' \<or> c = CHR ''+''"
proof -
  obtain t where t: "date = Some t"
    using assms by (cases date) (simp_all add: toDateString_def toISOString_def)
  let ?full = "isoYear (YearFromTime t) @ ''-'' @ pad2 (MonthFromTime t + 1) @ ''-'' @
               pad2 (DateFromTime t)"
  have d: "d = take 10 ?full"
    using assms unfolding t toDateString_date_part by simp
  have "\<forall>c\<in>set ?full. isDigit c \<or> c = CHR ''-'' \<or> c = CHR ''+''"
    by (simp add: isoYear_def pad6_def pad4_def pad3_def pad2_def isDigit_digit)
  then show ?thesis
    unfolding d using set_take_subset [of 10 ?full] by blast
qed

lemma toDateString_isDateKey:
  assumes "- 62167219200000 \<le> t" and "t \<le> 253402300799999"
  shows "\<exists>d. toDateString (newDate t) = Inr d \<and> isDateKey d"
proof -
  have v: "\<bar>t\<bar> \<le> 8640000000000000"
    using assms by linarith
  have y: "0 \<le> YearFromTime t" "YearFromTime t \<le> 9999"
    using YearFromTime_four_digits [OF assms] by simp_all
  have "isDateKey (pad4 (YearFromTime t) @ ''-'' @ pad2 (MonthFromTime t + 1) @ ''-'' @
          pad2 (DateFromTime t))"
    by (simp add: pad4_def pad3_def pad2_def isDigit_digit)
  then show ?thesis
    using v by (simp add: newDate_def toDateString_four_digits [OF y])
qed

text \<open>
  On date keys the collation order is the order of the strings by character codes, so
  that sorting them descending by collation is sorting them descending as strings.
\<close>

lemma isDigit_code: "isDigit c \<Longrightarrow> c \<noteq> CHR ''-'' \<and> c \<noteq> CHR ''+'' \<and> CHR ''-'' < c"
  by (auto simp: isDigit_def less_char_def)

lemma collationWeight_inj: "collationWeight a = collationWeight b \<longleftrightarrow> a = b"
  by (auto simp: collationWeight_def)

lemma collationWeight_less:
  assumes "isDigit a \<or> a = CHR ''-''" and "isDigit b \<or> b = CHR ''-''"
  shows "collationWeight a < collationWeight b \<longleftrightarrow> a < b"
  using assms isDigit_code [of a] isDigit_code [of b]
  by (auto simp: collationWeight_def less_char_def)

lemma collationKey_less:
  assumes "\<forall>c\<in>set x. isDigit c \<or> c = CHR ''-''" and "\<forall>c\<in>set y. isDigit c \<or> c = CHR ''-''"
  shows "collationKey x < collationKey y \<longleftrightarrow> x < y"
  using assms
proof (induction x arbitrary: y)
  case Nil
  then show ?case by (cases y) (simp_all add: collationKey_def)
next
  case (Cons a x)
  show ?case
  proof (cases y)
    case Nil
    then show ?thesis by (simp add: collationKey_def)
  next
    case (Cons b y')
    have w: "collationWeight a < collationWeight b \<longleftrightarrow> a < b"
      using Cons.prems Cons by (intro collationWeight_less) simp_all
    have r: "collationKey x < collationKey y' \<longleftrightarrow> x < y'"
      using Cons.prems Cons by (intro Cons.IH) simp_all
    show ?thesis
      using w r by (simp add: Cons collationKey_def collationWeight_inj)
  qed
qed

lemma collationKey_inj: "collationKey x = collationKey y \<longleftrightarrow> x = y"
  unfolding collationKey_def
  by (induction x arbitrary: y) (auto simp: collationWeight_inj Cons_eq_map_conv)

lemma collationKey_le:
  assumes "\<forall>c\<in>set x. isDigit c \<or> c = CHR ''-''" and "\<forall>c\<in>set y. isDigit c \<or> c = CHR ''-''"
  shows "collationKey x \<le> collationKey y \<longleftrightarrow> x \<le> y"
  using collationKey_less [OF assms] collationKey_inj [of x y]
  by (simp add: le_less)

lemma isDateKey_chars: "isDateKey d \<Longrightarrow> \<forall>c\<in>set d. isDigit c \<or> c = CHR ''-''"
  by (induction d rule: isDateKey.induct) simp_all

lemma insort_key_collation:
  assumes "isDateKey x" and "\<forall>y\<in>set ys. isDateKey y"
  shows "insort_key collationKey x ys = insort x ys"
  using assms(2)
proof (induction ys)
  case Nil
  show ?case by simp
next
  case (Cons y ys)
  have "collationKey x \<le> collationKey y \<longleftrightarrow> x \<le> y"
    using assms(1) Cons.prems by (intro collationKey_le isDateKey_chars) simp_all
  then show ?case
    using Cons by simp
qed

lemma sort_key_collation:
  assumes "\<forall>x\<in>set xs. isDateKey x"
  shows "sort_key collationKey xs = sort xs"
  using assms
proof (induction xs)
  case Nil
  show ?case by simp
next
  case (Cons x xs)
  have "sort_key collationKey (x # xs) = insort_key collationKey x (sort xs)"
    using Cons by simp
  also have "\<dots> = insort x (sort xs)"
    using Cons.prems by (intro insort_key_collation) simp_all
  finally show ?case by simp
qed

lemma sortDescending_keys:
  assumes "\<forall>x\<in>set xs. isDateKey x"
  shows "sortDescending xs = rev (sort xs)"
  by (simp add: sortDescending_def sort_key_collation [OF assms])

text \<open>
  Beyond the years 0 to 9999 the collation order is not the order of the character codes:
  the key of the year 10000 sorts below every four-digit key and above the keys of the
  years before 0.
\<close>

lemma sortDescending_extended_years:
  "sortDescending [''2025-10-13'', ''-000001-12'', ''+010000-01''] =
     [''2025-10-13'', ''+010000-01'', ''-000001-12'']"
  by code_simp

lemma set_insertDescending: "set (insertDescending d xs) = insert d (set xs)"
  by (induction xs) auto

lemma desc_insertDescending:
  "sorted_wrt (\<lambda>x y. y < x) xs \<Longrightarrow> sorted_wrt (\<lambda>x y. y < x) (insertDescending d xs)"
  by (induction xs) (auto simp: set_insertDescending)

lemma desc_unique:
  assumes "sorted_wrt (\<lambda>x y. y < x) xs" and "sorted_wrt (\<lambda>x y. y < x) ys" and "set xs = set ys"
  shows "xs = (ys :: string list)"
proof -
  have "sorted_wrt (<) (rev xs)" and "sorted_wrt (<) (rev ys)"
    using assms by (simp_all add: sorted_wrt_rev)
  moreover have "set (rev ys) = set (rev xs)"
    using assms by simp
  ultimately have "rev ys = rev xs"
    by (rule strict_sorted_equal)
  then show ?thesis by simp
qed

lemma desc_distinct: "sorted_wrt (\<lambda>x y. y < x) xs \<Longrightarrow> distinct (xs :: string list)"
  by (induction xs) auto

lemma desc_sortDescending:
  assumes "distinct zs" and "\<forall>x\<in>set zs. isDateKey x"
  shows "sorted_wrt (\<lambda>x y. y < x) (sortDescending zs)"
proof -
  have "sorted (sort zs)" and "distinct (sort zs)"
    using assms by simp_all
  then have "sorted_wrt (<) (sort zs)"
    by (simp add: strict_sorted_iff)
  then show ?thesis
    by (simp add: sortDescending_keys [OF assms(2)] sorted_wrt_rev)
qed

lemma sortDescending_insert:
  assumes "sorted_wrt (\<lambda>x y. y < x) xs" and "isDateKey d" and "\<forall>x\<in>set xs. isDateKey x"
  shows "sortDescending (if d \<in> set xs then xs else xs @ [d]) = insertDescending d xs"
proof -
  let ?zs = "if d \<in> set xs then xs else xs @ [d]"
  have k: "\<forall>x\<in>set ?zs. isDateKey x"
    using assms(2,3) by simp
  have "distinct ?zs"
    using desc_distinct [OF assms(1)] by simp
  then have "sorted_wrt (\<lambda>x y. y < x) (sortDescending ?zs)"
    using k by (rule desc_sortDescending)
  moreover have "sorted_wrt (\<lambda>x y. y < x) (insertDescending d xs)"
    by (rule desc_insertDescending [OF assms(1)])
  moreover have "set (sortDescending ?zs) = set (insertDescending d xs)"
    unfolding sortDescending_keys [OF k] by (auto simp: set_insertDescending)
  ultimately show ?thesis
    by (rule desc_unique)
qed

lemma take_insertDescending:
  "take n (insertDescending d (take n xs)) = take n (insertDescending d xs)"
proof (induction xs arbitrary: n)
  case Nil
  show ?case by simp
next
  case (Cons x xs)
  show ?case
  proof (cases n)
    case 0
    then show ?thesis by simp
  next
    case (Suc m)
    show ?thesis
    proof (cases m)
      case 0
      then show ?thesis using Suc by simp
    next
      case (Suc k)
      then show ?thesis
        using \<open>n = Suc m\<close> Cons.IH [of m] by (simp add: min_def)
    qed
  qed
qed

lemma fold_insertDescending:
  assumes "sorted_wrt (\<lambda>x y. y < x) ys"
  shows "sorted_wrt (\<lambda>x y. y < x) (fold insertDescending ds ys)
     \<and> set (fold insertDescending ds ys) = set ys \<union> set ds"
  using assms
  by (induction ds arbitrary: ys) (auto simp: desc_insertDescending set_insertDescending)

lemma fold_insertDescending_eq:
  assumes "sorted_wrt (\<lambda>x y. y < x) ys"
  shows "fold insertDescending ds ys = rev (sorted_list_of_set (set ys \<union> set ds))"
proof -
  have "sorted_wrt (<) (sorted_list_of_set (set ys \<union> set ds))"
    by simp
  then have "sorted_wrt (\<lambda>x y. y < x) (rev (sorted_list_of_set (set ys \<union> set ds)))"
    by (simp add: sorted_wrt_rev)
  moreover have "set (fold insertDescending ds ys) = set (rev (sorted_list_of_set (set ys \<union> set ds)))"
    using fold_insertDescending [OF assms, of ds] by simp
  ultimately show ?thesis
    using fold_insertDescending [OF assms, of ds] desc_unique by blast
qed

text \<open>
  A run of calls with the dates \<open>ds\<close>, all of them date keys, from a store whose index is
  the first thirty of a strictly descending list \<open>ys\<close> of date keys: no call raises, and
  the index afterwards is the first thirty of \<open>ys\<close> with the dates inserted.
\<close>

lemma logMeals_dates:
  assumes "map callDate calls = map Inr ds"
    and "sorted_wrt (\<lambda>x y. y < x) ys" and "datesOf s = take 30 ys"
    and "\<forall>d\<in>set ds. isDateKey d" and "\<forall>d\<in>set ys. isDateKey d"
  shows "fst (logMeals calls s) = Inr ()
     \<and> datesOf (snd (logMeals calls s)) = take 30 (fold insertDescending ds ys)"
  using assms
proof (induction calls arbitrary: s ds ys)
  case Nil
  then show ?case by simp
next
  case (Cons call calls)
  obtain now fresh meal where call: "call = (now, fresh, meal)"
    by (cases call) auto
  obtain d ds' where ds: "ds = d # ds'" and cd: "callDate (now, fresh, meal) = Inr d"
    and rest: "map callDate calls = map Inr ds'"
    using Cons.prems(1) call by (cases ds) auto
  have kd: "isDateKey d" and kds: "\<forall>d\<in>set ds'. isDateKey d"
    using Cons.prems(4) ds by simp_all
  let ?s1 = "snd (logMeal now fresh meal s)"
  have run: "logMeals (call # calls) s = logMeals calls ?s1"
    using fst_logMeal [OF cd, of s]
    by (cases "logMeal now fresh meal s") (auto simp: call)
  have idx: "sorted_wrt (\<lambda>x y. y < x) (take 30 ys)"
    using Cons.prems(2) by (rule sorted_wrt_take)
  have kidx: "\<forall>x\<in>set (take 30 ys). isDateKey x"
    using Cons.prems(5) set_take_subset [of 30 ys] by blast
  have "datesOf ?s1 =
          take 30 (sortDescending (if d \<in> set (datesOf s) then datesOf s else datesOf s @ [d]))"
    by (rule datesOf_logMeal [OF cd])
  also have "\<dots> = take 30 (insertDescending d (take 30 ys))"
    by (simp only: Cons.prems(3) sortDescending_insert [OF idx kd kidx])
  finally have d1: "datesOf ?s1 = take 30 (insertDescending d ys)"
    by (simp add: take_insertDescending)
  have s1: "sorted_wrt (\<lambda>x y. y < x) (insertDescending d ys)"
    by (rule desc_insertDescending [OF Cons.prems(2)])
  have k1: "\<forall>x\<in>set (insertDescending d ys). isDateKey x"
    using kd Cons.prems(5) by (simp add: set_insertDescending)
  show ?case
    using Cons.IH [OF rest s1 d1 kds k1] run ds by simp
qed

lemma callDates_isDateKey:
  assumes "\<forall>call\<in>set calls. - 62167219200000 \<le> callTimestamp call
             \<and> callTimestamp call \<le> 253402300799999"
  shows "\<exists>ds. map callDate calls = map Inr ds \<and> (\<forall>d\<in>set ds. isDateKey d)"
  using assms
proof (induction calls)
  case Nil
  show ?case by simp
next
  case (Cons call calls)
  obtain ds where ds: "map callDate calls = map Inr ds" "\<forall>d\<in>set ds. isDateKey d"
    using Cons by auto
  obtain d where d: "callDate call = Inr d" "isDateKey d"
    using Cons.prems toDateString_isDateKey [of "callTimestamp call"]
    by (auto simp: callDate_def)
  show ?case
    using ds d by (intro exI [of _ "d # ds"]) simp
qed

text \<open>
  Claim C4. For meals of the years 0 to 9999, whose dates are the keys \<^verbatim>\<open>YYYY-MM-DD\<close>: from
  a store whose index of dates holds such keys, strictly descending and at most 30 of
  them (a store with no index is one), after a run of \<^verbatim>\<open>logMeal\<close> calls with the dates
  \<open>ds\<close> (in any order, with or without repetitions) the index holds the 30 greatest of the
  dates known, those of the old index and of the run, in descending order of the date
  strings and without duplicates: exactly 30 of them when more than 30 distinct dates are
  known. The dates of calls whose timestamps are within the years 0 to 9999 (the time
  values from -62167219200000 to 253402300799999) are such keys.
\<close>

theorem dates_index_bounded:
  "(map callDate calls = map Inr ds \<and> (\<forall>d\<in>set (datesOf s) \<union> set ds. isDateKey d)
    \<and> sorted_wrt (\<lambda>x y. y < x) (datesOf s) \<and> length (datesOf s) \<le> 30
    \<longrightarrow> fst (logMeals calls s) = Inr ()
      \<and> datesOf (snd (logMeals calls s)) =
          take 30 (rev (sorted_list_of_set (set (datesOf s) \<union> set ds)))
      \<and> sorted_wrt (\<lambda>x y. y < x) (datesOf (snd (logMeals calls s)))
      \<and> distinct (datesOf (snd (logMeals calls s)))
      \<and> length (datesOf (snd (logMeals calls s))) = min 30 (card (set (datesOf s) \<union> set ds))
      \<and> (30 < card (set (datesOf s) \<union> set ds) \<longrightarrow> length (datesOf (snd (logMeals calls s))) = 30))
   \<and> ((\<forall>call\<in>set calls. - 62167219200000 \<le> callTimestamp call
                          \<and> callTimestamp call \<le> 253402300799999)
      \<longrightarrow> (\<exists>ds'. map callDate calls = map Inr ds' \<and> (\<forall>d\<in>set ds'. isDateKey d)))"
proof (intro conjI impI)
  assume a: "map callDate calls = map Inr ds \<and> (\<forall>d\<in>set (datesOf s) \<union> set ds. isDateKey d)
    \<and> sorted_wrt (\<lambda>x y. y < x) (datesOf s) \<and> length (datesOf s) \<le> 30"
  let ?all = "rev (sorted_list_of_set (set (datesOf s) \<union> set ds))"
  let ?idx = "datesOf (snd (logMeals calls s))"
  have t: "datesOf s = take 30 (datesOf s)"
    using a by simp
  have run: "fst (logMeals calls s) = Inr () \<and> ?idx = take 30 (fold insertDescending ds (datesOf s))"
    using a t by (intro logMeals_dates) simp_all
  have f: "fold insertDescending ds (datesOf s) = ?all"
    using a by (intro fold_insertDescending_eq) simp
  have idx: "?idx = take 30 ?all"
    using run f by simp
  have desc: "sorted_wrt (\<lambda>x y. y < x) ?all"
    by (simp add: sorted_wrt_rev)
  have s: "sorted_wrt (\<lambda>x y. y < x) ?idx"
    unfolding idx using desc by (rule sorted_wrt_take)
  have len: "length ?idx = min 30 (card (set (datesOf s) \<union> set ds))"
    unfolding idx by (simp add: min.commute)
  show "fst (logMeals calls s) = Inr ()"
    using run by simp
  show "?idx = take 30 ?all"
    by (rule idx)
  show "sorted_wrt (\<lambda>x y. y < x) ?idx"
    by (rule s)
  show "distinct ?idx"
    by (rule desc_distinct [OF s])
  show "length ?idx = min 30 (card (set (datesOf s) \<union> set ds))"
    by (rule len)
  show "length ?idx = 30" if "30 < card (set (datesOf s) \<union> set ds)"
    using that len by simp
next
  assume "\<forall>call\<in>set calls. - 62167219200000 \<le> callTimestamp call
                          \<and> callTimestamp call \<le> 253402300799999"
  then show "\<exists>ds'. map callDate calls = map Inr ds' \<and> (\<forall>d\<in>set ds'. isDateKey d)"
    by (rule callDates_isDateKey)
qed

lemma januaryCalls_dates: "map callDate januaryCalls = map Inr januaryDates"
  by code_simp

lemma januaryDates_top: "take 30 (rev (sorted_list_of_set (set januaryDates))) = butlast januaryDates"
  by code_simp

lemma januaryDates_card: "card (set januaryDates) = 31"
  by code_simp

lemma januaryDates_length: "length januaryDates = 31"
  by (simp add: januaryDates_def)

lemma januaryDates_keys: "list_all isDateKey januaryDates"
  by code_simp

lemma januaryCalls_range:
  "list_all (\<lambda>call. - 62167219200000 \<le> callTimestamp call
                    \<and> callTimestamp call \<le> 253402300799999) januaryCalls"
  by code_simp

theorem dates_index_bounded_witness:
  "datesOf (snd (logMeals januaryCalls Map.empty)) = butlast januaryDates
   \<and> length (datesOf (snd (logMeals januaryCalls Map.empty))) = 30
   \<and> fst (logMeals januaryCalls Map.empty) = Inr ()
   \<and> (\<exists>ds'. map callDate januaryCalls = map Inr ds' \<and> list_all isDateKey ds')"
proof -
  have e: "datesOf Map.empty = []"
    by (simp add: datesOf_def)
  have h: "map callDate januaryCalls = map Inr januaryDates
           \<and> (\<forall>d\<in>set (datesOf Map.empty) \<union> set januaryDates. isDateKey d)
           \<and> sorted_wrt (\<lambda>x y. y < x) (datesOf Map.empty) \<and> length (datesOf Map.empty) \<le> 30"
    using januaryCalls_dates januaryDates_keys e by (simp add: list_all_iff)
  have c: "30 < card (set (datesOf Map.empty) \<union> set januaryDates)"
    using januaryDates_card e by simp
  have r: "\<forall>call\<in>set januaryCalls. - 62167219200000 \<le> callTimestamp call
                          \<and> callTimestamp call \<le> 253402300799999"
    using januaryCalls_range by (simp add: list_all_iff)
  note th = dates_index_bounded [of januaryCalls januaryDates Map.empty]
  note main = th [THEN conjunct1, THEN mp, OF h]
  note keys = th [THEN conjunct2, THEN mp, OF r]
  show ?thesis
    using main c keys
    by (simp add: e januaryDates_top januaryDates_length list_all_iff)
qed

section \<open>The date key of a meal: proofs\<close>

lemma toDateString_tokyo_midnight: "localDateString 540 1760367600000 = Inr ''2025-10-14''"
  by code_simp

lemma getDailyKey_neq_PROFILE: "getDailyKey d \<noteq> PROFILE" "PROFILE \<noteq> getDailyKey d"
  by (simp_all add: getDailyKey_def MEAL_DAILY_PREFIX_def PROFILE_def)

lemma MEAL_DATES_neq_PROFILE: "MEAL_DATES \<noteq> PROFILE" "PROFILE \<noteq> MEAL_DATES"
  by (simp_all add: MEAL_DATES_def PROFILE_def)

lemma mealsOn_profile: "mealsOn (s(PROFILE \<mapsto> v)) d = mealsOn s d"
  by (simp add: mealsOn_def dailyOf_def getDailyKey_neq_PROFILE)

text \<open>
  Claim C8 as stated fails: in a session whose profile has the timezone Asia/Tokyo, a meal
  eaten at 2025-10-13T15:00:00Z, which is midnight of 14 October in Tokyo, is filed under
  2025-10-13, while its calendar date in the session's zone is 2025-10-14.
\<close>

theorem date_key_locale_counterexample:
  "map_option up_timezone (profileOf tokyoStore) = Some (Some ''Asia/Tokyo'')
   \<and> map_sum id dm_date (fst (logMeal 1760367600000 ''id'' (eggsAt 1760367600000) tokyoStore)) =
       Inr ''2025-10-13''
   \<and> map_option dm_date
       (dailyOf (snd (logMeal 1760367600000 ''id'' (eggsAt 1760367600000) tokyoStore)) ''2025-10-13'') =
       Some ''2025-10-13''
   \<and> localDateString 540 1760367600000 = Inr ''2025-10-14''"
proof -
  have cd: "callDate (1760367600000, ''id'', eggsAt 1760367600000) = Inr ''2025-10-13''"
    by (simp add: callDate_def eggsAt_def toDateString_20374_15h)
  show ?thesis
    by (simp add: fst_logMeal [OF cd] dailyOf_logMeal [OF cd] toDateString_tokyo_midnight
        profileOf_def tokyoStore_def)
qed

lemma key_20374:
  "take 10 (isoYear (YearFromTime 1760367600000) @ ''-'' @
            pad2 (MonthFromTime 1760367600000 + 1) @ ''-'' @
            pad2 (DateFromTime 1760367600000)) = ''2025-10-13''"
  "YearFromTime 1760367600000 = 2025"
  "MonthFromTime 1760367600000 = 9"
  "DateFromTime 1760367600000 = 13"
  "Day 1760367600000 = Day 1760371200000"
  by code_simp+

text \<open>
  Claim C8, amended. The key under which \<^verbatim>\<open>logMeal\<close> files a meal is the UTC calendar
  date of the meal's timestamp \<open>t\<close>, whatever the session's profile and its timezone. For
  every call whose timestamp is a valid time value, and every store: the call returns a
  record whose date is the first ten characters of the year, month and date number of \<open>t\<close>
  in UTC as \<^verbatim>\<open>toISOString\<close> writes them, which is \<^verbatim>\<open>YYYY-MM-DD\<close> when the year is one of
  0 to 9999; that record is what is stored under its date afterwards, it holds the meal,
  and the same record results whatever profile is stored. The year, month and date number
  are those of the UTC calendar: the year is the largest whose first instant is at most
  \<open>t\<close>; the month is one of the twelve and the date a day of that month; and the days of
  the year before the month plus the date give the day within the year. The years 0 to
  9999 are the time values from -62167219200000 to 253402300799999. Two valid timestamps
  of the same UTC day have the same key, and two timestamps within the years 0 to 9999
  that have the same key are of the same UTC day.
\<close>

theorem date_key_utc:
  assumes "callTimestamp (now, fresh, meal) = t"
  shows "(\<bar>t\<bar> \<le> 8640000000000000 \<longrightarrow>
      (\<exists>day. fst (logMeal now fresh meal s) = Inr day
         \<and> dm_date day =
             take 10 (isoYear (YearFromTime t) @ ''-'' @ pad2 (MonthFromTime t + 1) @ ''-'' @
                      pad2 (DateFromTime t))
         \<and> (0 \<le> YearFromTime t \<and> YearFromTime t \<le> 9999 \<longrightarrow>
              dm_date day =
                pad4 (YearFromTime t) @ ''-'' @ pad2 (MonthFromTime t + 1) @ ''-'' @
                pad2 (DateFromTime t))
         \<and> dailyOf (snd (logMeal now fresh meal s)) (dm_date day) = Some day
         \<and> loggedMeal (now, fresh, meal) \<in> set (dm_meals day)
         \<and> fst (logMeal now fresh meal (s(PROFILE \<mapsto> VProfile p))) = Inr day))
   \<and> TimeFromYear (YearFromTime t) \<le> t \<and> t < TimeFromYear (YearFromTime t + 1)
   \<and> (\<forall>y. TimeFromYear y \<le> t \<longrightarrow> y \<le> YearFromTime t)
   \<and> DayFromYear (YearFromTime t + 1) = DayFromYear (YearFromTime t) + 365 + InLeapYear t
   \<and> 0 \<le> MonthFromTime t \<and> MonthFromTime t \<le> 11
   \<and> 1 \<le> DateFromTime t \<and> DateFromTime t \<le> daysInMonth (MonthFromTime t) (InLeapYear t)
   \<and> Day t = DayFromYear (YearFromTime t) + daysBeforeMonth (MonthFromTime t) (InLeapYear t)
               + DateFromTime t - 1
   \<and> (- 62167219200000 \<le> t \<and> t \<le> 253402300799999 \<longrightarrow>
        0 \<le> YearFromTime t \<and> YearFromTime t \<le> 9999)
   \<and> (\<bar>t\<bar> \<le> 8640000000000000 \<and> \<bar>t'\<bar> \<le> 8640000000000000 \<and> Day t = Day t' \<longrightarrow>
        toDateString (newDate t) = toDateString (newDate t'))
   \<and> (- 62167219200000 \<le> t \<and> t \<le> 253402300799999 \<and>
       - 62167219200000 \<le> t' \<and> t' \<le> 253402300799999 \<and>
       toDateString (newDate t) = toDateString (newDate t') \<longrightarrow> Day t = Day t')"
proof -
  let ?d = "take 10 (isoYear (YearFromTime t) @ ''-'' @ pad2 (MonthFromTime t + 1) @ ''-'' @
                     pad2 (DateFromTime t))"
  have log: "\<exists>day. fst (logMeal now fresh meal s) = Inr day
         \<and> dm_date day = ?d
         \<and> (0 \<le> YearFromTime t \<and> YearFromTime t \<le> 9999 \<longrightarrow>
              dm_date day =
                pad4 (YearFromTime t) @ ''-'' @ pad2 (MonthFromTime t + 1) @ ''-'' @
                pad2 (DateFromTime t))
         \<and> dailyOf (snd (logMeal now fresh meal s)) (dm_date day) = Some day
         \<and> loggedMeal (now, fresh, meal) \<in> set (dm_meals day)
         \<and> fst (logMeal now fresh meal (s(PROFILE \<mapsto> VProfile p))) = Inr day"
    if v: "\<bar>t\<bar> \<le> 8640000000000000"
  proof -
    have cd: "callDate (now, fresh, meal) = Inr ?d"
      using v by (simp only: callDate_def assms newDate_def if_True toDateString_date_part)
    let ?ms = "sort_key ml_timestamp (mealsOn s ?d @ [loggedMeal (now, fresh, meal)])"
    let ?day = "\<lparr>dm_date = ?d, dm_totals = computeTotals ?ms, dm_meals = ?ms\<rparr>"
    have r: "fst (logMeal now fresh meal s) = Inr ?day"
      by (rule fst_logMeal [OF cd])
    have st: "dailyOf (snd (logMeal now fresh meal s)) ?d = Some ?day"
      by (rule dailyOf_logMeal [OF cd])
    have m: "loggedMeal (now, fresh, meal) \<in> set (dm_meals ?day)"
      by simp
    have pr: "fst (logMeal now fresh meal (s(PROFILE \<mapsto> VProfile p))) = Inr ?day"
      by (simp only: fst_logMeal [OF cd] mealsOn_profile)
    have four: "?d = pad4 (YearFromTime t) @ ''-'' @ pad2 (MonthFromTime t + 1) @ ''-'' @
                pad2 (DateFromTime t)"
      if "0 \<le> YearFromTime t \<and> YearFromTime t \<le> 9999"
      using that toDateString_four_digits [of t] toDateString_date_part [of t] by simp
    show ?thesis
      using r st m pr four by (intro exI [of _ ?day]) simp
  qed
  have same: "toDateString (newDate t) = toDateString (newDate t')"
    if "\<bar>t\<bar> \<le> 8640000000000000 \<and> \<bar>t'\<bar> \<le> 8640000000000000 \<and> Day t = Day t'"
    using that toDateString_same_day [of t t'] by (simp add: newDate_def)
  have inj: "Day t = Day t'"
    if h: "- 62167219200000 \<le> t \<and> t \<le> 253402300799999 \<and>
       - 62167219200000 \<le> t' \<and> t' \<le> 253402300799999 \<and>
       toDateString (newDate t) = toDateString (newDate t')"
  proof -
    have y: "0 \<le> YearFromTime t" "YearFromTime t \<le> 9999"
      using h YearFromTime_four_digits [of t] by simp_all
    have y': "0 \<le> YearFromTime t'" "YearFromTime t' \<le> 9999"
      using h YearFromTime_four_digits [of t'] by simp_all
    have "\<bar>t\<bar> \<le> 8640000000000000" "\<bar>t'\<bar> \<le> 8640000000000000"
      using h by linarith+
    then have "toDateString (Some t) = toDateString (Some t')"
      using h by (simp add: newDate_def)
    then show ?thesis
      by (rule toDateString_same_key [OF y y'])
  qed
  have leap: "DayFromYear (YearFromTime t + 1) = DayFromYear (YearFromTime t) + 365 + InLeapYear t"
    using DayFromYear_Suc [of "YearFromTime t"] DaysInYear_InLeapYear [of t] by simp
  have day: "Day t = DayFromYear (YearFromTime t)
               + daysBeforeMonth (MonthFromTime t) (InLeapYear t) + DateFromTime t - 1"
    using DayWithinYear_eq [of t] by (simp add: DayWithinYear_def)
  show ?thesis
    using log same inj leap day YearFromTime_bounds [of t] YearFromTime_largest [of _ t]
      MonthFromTime_range [of t] DateFromTime_range [of t] YearFromTime_four_digits [of t]
    by blast
qed

theorem date_key_utc_witness:
  "(\<exists>day. fst (logMeal 0 ''id'' (eggsAt 1760367600000) tokyoStore) = Inr day
       \<and> dm_date day = ''2025-10-13''
       \<and> dailyOf (snd (logMeal 0 ''id'' (eggsAt 1760367600000) tokyoStore)) ''2025-10-13'' = Some day
       \<and> loggedMeal (0, ''id'', eggsAt 1760367600000) \<in> set (dm_meals day)
       \<and> fst (logMeal 0 ''id'' (eggsAt 1760367600000) (tokyoStore(PROFILE \<mapsto> VProfile emptyProfile))) =
           Inr day)
   \<and> toDateString (newDate 1760367600000) = toDateString (newDate 1760371200000)
   \<and> YearFromTime 1760367600000 = 2025 \<and> MonthFromTime 1760367600000 = 9
   \<and> DateFromTime 1760367600000 = 13"
proof -
  have c: "callTimestamp (0, ''id'', eggsAt 1760367600000) = 1760367600000"
    by (simp add: eggsAt_def)
  have v: "\<bar>1760367600000::int\<bar> \<le> 8640000000000000" "\<bar>1760371200000::int\<bar> \<le> 8640000000000000"
    by simp_all
  note th = date_key_utc [OF c, where s = tokyoStore and p = emptyProfile and t' = 1760371200000]
  note log = th [THEN conjunct1, rule_format, OF v(1)]
  note same = th [THEN conjunct2, THEN conjunct2, THEN conjunct2, THEN conjunct2,
      THEN conjunct2, THEN conjunct2, THEN conjunct2, THEN conjunct2, THEN conjunct2,
      THEN conjunct2, THEN conjunct2, THEN conjunct1, rule_format]
  obtain day where d: "fst (logMeal 0 ''id'' (eggsAt 1760367600000) tokyoStore) = Inr day"
      "dm_date day = ''2025-10-13''"
      "dailyOf (snd (logMeal 0 ''id'' (eggsAt 1760367600000) tokyoStore)) (dm_date day) = Some day"
      "loggedMeal (0, ''id'', eggsAt 1760367600000) \<in> set (dm_meals day)"
      "fst (logMeal 0 ''id'' (eggsAt 1760367600000) (tokyoStore(PROFILE \<mapsto> VProfile emptyProfile))) =
           Inr day"
    using log unfolding key_20374(1) by blast
  have s: "toDateString (newDate 1760367600000) = toDateString (newDate 1760371200000)"
    using same v key_20374(5) by blast
  show ?thesis
    using d s by (simp add: key_20374(2-4))
qed

end
